theory Spec2Isabelle
  imports Main "HOL-Library.Word"
begin

unbundle bit_operations_syntax

section \<open>Go types, values and errors\<close>

text \<open>
  The package works on Go values through the \<^verbatim>\<open>reflect\<close> library. A Go type
  (\<^verbatim>\<open>reflect.Type\<close>) is a finite tree: its name (empty for an unnamed composite
  type), its kind and, by kind, its element type, key type, length or fields. Types are
  compared structurally, as \<^verbatim>\<open>==\<close> on \<^verbatim>\<open>reflect.Type\<close> does for types of
  one package. Channel, function and complex values are outside the model.
\<close>

type_synonym byte = "8 word"

datatype kind =
    KInvalid | KBool | KInt | KInt8 | KInt16 | KInt32 | KInt64
  | KUint | KUint8 | KUint16 | KUint32 | KUint64 | KUintptr
  | KFloat32 | KFloat64 | KComplex64 | KComplex128
  | KArray | KChan | KFunc | KInterface | KMap | KPtr | KSlice | KString | KStruct
  | KUnsafePointer

datatype gtype =
    BasicT string kind
  | ArrayT string nat gtype
  | SliceT string gtype
  | MapT string gtype gtype
  | PtrT string gtype
  | StructT string "StructField list"
and StructField =
    StructField (Name: string) (PkgPath: string) (Tag_json: string) (Anonymous: bool)
      (Type: gtype)

fun Kind :: "gtype \<Rightarrow> kind" where
  "Kind (BasicT n k) = k"
| "Kind (ArrayT n len et) = KArray"
| "Kind (SliceT n et) = KSlice"
| "Kind (MapT n kt et) = KMap"
| "Kind (PtrT n et) = KPtr"
| "Kind (StructT n fs) = KStruct"

fun Type_Name :: "gtype \<Rightarrow> string" where
  "Type_Name (BasicT n k) = n"
| "Type_Name (ArrayT n len et) = n"
| "Type_Name (SliceT n et) = n"
| "Type_Name (MapT n kt et) = n"
| "Type_Name (PtrT n et) = n"
| "Type_Name (StructT n fs) = n"

text \<open>
  Errors are the values \<^verbatim>\<open>fmt.Errorf\<close> builds: the format string of the source and
  its arguments. \<open>LibError\<close> is an error of a library or of a function outside this
  development. A panic carries either the package's own \<^verbatim>\<open>*encodeError\<close> or any
  other value (a \<^verbatim>\<open>reflect.ValueError\<close>, a \<^verbatim>\<open>runtime.Error\<close>), given by its
  message. Only \<^verbatim>\<open>encodeState.error\<close> panics with an \<^verbatim>\<open>*encodeError\<close>, and only
  the encoders call it: a function that has no \<^verbatim>\<open>encodeState\<close> (the derivation of a
  schema, the construction of an encoder) returns a \<open>result\<close> or a sum whose panic is
  a message.
\<close>

datatype arg = AStr string | ANum int | AType gtype | ANilType | AErr error
and error = Errorf string "arg list" | LibError string

datatype panicv = encodeError error | runtimePanic string

datatype 'a result = Ok 'a | Err error | Panic string

text \<open>
  A \<^verbatim>\<open>reflect.Value\<close>: its type and its content. \<open>VInt\<close> holds what
  \<^verbatim>\<open>v.Int()\<close> returns (signed kinds), \<open>VUint\<close> what \<^verbatim>\<open>v.Uint()\<close> returns,
  \<open>VFloat\<close> the IEEE-754 bits of \<^verbatim>\<open>v.Float()\<close>. A map is the list of its entries in
  the order \<^verbatim>\<open>MapRange\<close> yields them. \<open>VNil\<close> is the nil value of a pointer,
  interface, slice or map type; \<open>VPtr\<close> and \<open>VIface\<close> hold the value pointed to or
  contained.
\<close>

datatype gvalue =
    VBool gtype bool
  | VInt gtype "64 word"
  | VUint gtype "64 word"
  | VFloat gtype "64 word"
  | VString gtype string
  | VArray gtype "gvalue list"
  | VSlice gtype "gvalue list"
  | VMap gtype "(gvalue \<times> gvalue) list"
  | VStruct gtype "gvalue list"
  | VPtr gtype gvalue
  | VIface gtype gvalue
  | VNil gtype

fun Value_Type :: "gvalue \<Rightarrow> gtype" where
  "Value_Type (VBool t b) = t"
| "Value_Type (VInt t x) = t"
| "Value_Type (VUint t x) = t"
| "Value_Type (VFloat t x) = t"
| "Value_Type (VString t s) = t"
| "Value_Type (VArray t xs) = t"
| "Value_Type (VSlice t xs) = t"
| "Value_Type (VMap t kvs) = t"
| "Value_Type (VStruct t xs) = t"
| "Value_Type (VPtr t x) = t"
| "Value_Type (VIface t x) = t"
| "Value_Type (VNil t) = t"

definition uint8T :: gtype where
  "uint8T = BasicT ''uint8'' KUint8"

text \<open>The accessors of \<^verbatim>\<open>reflect.Value\<close> the encoders call; each panics on a value
  of another kind.\<close>

fun Value_Bool :: "gvalue \<Rightarrow> panicv + bool" where
  "Value_Bool (VBool t b) = Inr b"
| "Value_Bool v = Inl (runtimePanic ''reflect: call of reflect.Value.Bool on non-bool Value'')"

fun Value_Int :: "gvalue \<Rightarrow> panicv + 64 word" where
  "Value_Int (VInt t x) = Inr x"
| "Value_Int v = Inl (runtimePanic ''reflect: call of reflect.Value.Int on non-int Value'')"

fun Value_Float :: "gvalue \<Rightarrow> panicv + 64 word" where
  "Value_Float (VFloat t x) = Inr x"
| "Value_Float v = Inl (runtimePanic ''reflect: call of reflect.Value.Float on non-float Value'')"

fun Value_Len :: "gvalue \<Rightarrow> panicv + nat" where
  "Value_Len (VArray t xs) = Inr (length xs)"
| "Value_Len (VSlice t xs) = Inr (length xs)"
| "Value_Len (VMap t kvs) = Inr (length kvs)"
| "Value_Len (VString t s) = Inr (length s)"
| "Value_Len (VNil t) =
     (if Kind t = KSlice \<or> Kind t = KMap then Inr 0
      else Inl (runtimePanic ''reflect: call of reflect.Value.Len on nil Value''))"
| "Value_Len v = Inl (runtimePanic ''reflect: call of reflect.Value.Len on Value without length'')"

text \<open>\<^verbatim>\<open>v.Index(i)\<close> and \<^verbatim>\<open>v.Field(i)\<close> and \<^verbatim>\<open>v.Elem()\<close> return the component
  with its addressability (\<^verbatim>\<open>CanAddr\<close>): an element of a slice and the target of a
  pointer are addressable, an element of an array and a field of a struct are so when the
  array or struct is, a byte of a string and the content of an interface are not.\<close>

fun Value_Index :: "bool \<Rightarrow> gvalue \<Rightarrow> nat \<Rightarrow> panicv + bool \<times> gvalue" where
  "Value_Index a (VArray t xs) i =
     (if i < length xs then Inr (a, xs ! i)
      else Inl (runtimePanic ''reflect: array index out of range''))"
| "Value_Index a (VSlice t xs) i =
     (if i < length xs then Inr (True, xs ! i)
      else Inl (runtimePanic ''reflect: slice index out of range''))"
| "Value_Index a (VString t s) i =
     (if i < length s then Inr (False, VUint uint8T (of_char (s ! i)))
      else Inl (runtimePanic ''reflect: string index out of range''))"
| "Value_Index a v i = Inl (runtimePanic ''reflect: call of reflect.Value.Index on unindexable Value'')"

fun Value_Field :: "bool \<Rightarrow> gvalue \<Rightarrow> nat \<Rightarrow> panicv + bool \<times> gvalue" where
  "Value_Field a (VStruct t xs) i =
     (if i < length xs then Inr (a, xs ! i)
      else Inl (runtimePanic ''reflect: Field index out of range''))"
| "Value_Field a v i = Inl (runtimePanic ''reflect: call of reflect.Value.Field on non-struct Value'')"

fun Value_MapRange :: "gvalue \<Rightarrow> panicv + (gvalue \<times> gvalue) list" where
  "Value_MapRange (VMap t kvs) = Inr kvs"
| "Value_MapRange (VNil t) =
     (if Kind t = KMap then Inr []
      else Inl (runtimePanic ''reflect: call of reflect.Value.MapRange on non-map Value''))"
| "Value_MapRange v = Inl (runtimePanic ''reflect: call of reflect.Value.MapRange on non-map Value'')"

fun Value_IsNil :: "gvalue \<Rightarrow> panicv + bool" where
  "Value_IsNil (VNil t) =
     (if Kind t \<in> {KChan, KFunc, KInterface, KMap, KPtr, KSlice, KUnsafePointer} then Inr True
      else Inl (runtimePanic ''reflect: call of reflect.Value.IsNil on non-nillable Value''))"
| "Value_IsNil (VPtr t x) = Inr False"
| "Value_IsNil (VIface t x) = Inr False"
| "Value_IsNil (VSlice t xs) = Inr False"
| "Value_IsNil (VMap t kvs) = Inr False"
| "Value_IsNil v = Inl (runtimePanic ''reflect: call of reflect.Value.IsNil on non-nillable Value'')"

text \<open>The encoders call \<^verbatim>\<open>v.Elem()\<close> only after \<^verbatim>\<open>v.IsNil()\<close> returned false.\<close>

fun Value_Elem :: "gvalue \<Rightarrow> panicv + bool \<times> gvalue" where
  "Value_Elem (VPtr t x) = Inr (True, x)"
| "Value_Elem (VIface t x) = Inr (False, x)"
| "Value_Elem v = Inl (runtimePanic ''reflect: call of reflect.Value.Elem on Value without element'')"

fun elemByte :: "gvalue \<Rightarrow> byte" where
  "elemByte (VUint t x) = ucast x"
| "elemByte v = 0"

fun elemKind :: "gtype \<Rightarrow> kind" where
  "elemKind (ArrayT n len et) = Kind et"
| "elemKind (SliceT n et) = Kind et"
| "elemKind t = KInvalid"

fun elemType :: "gtype \<Rightarrow> gtype option" where
  "elemType (ArrayT n len et) = Some et"
| "elemType (SliceT n et) = Some et"
| "elemType t = None"

text \<open>\<^verbatim>\<open>v.Bytes()\<close>: the content of a slice of bytes.\<close>

fun Value_Bytes :: "gvalue \<Rightarrow> panicv + byte list" where
  "Value_Bytes (VSlice t xs) =
     (if elemKind t = KUint8 then Inr (map elemByte xs)
      else Inl (runtimePanic ''reflect.Value.Bytes of non-byte slice''))"
| "Value_Bytes (VNil t) =
     (if Kind t = KSlice \<and> elemKind t = KUint8 then Inr []
      else Inl (runtimePanic ''reflect.Value.Bytes of non-byte slice''))"
| "Value_Bytes v = Inl (runtimePanic ''reflect: call of reflect.Value.Bytes on non-slice Value'')"

text \<open>\<^verbatim>\<open>v.Slice(0, n).Bytes()\<close> on an addressable value: the first \<open>n\<close> bytes of an
  array or slice of bytes, a panic when it is shorter (a slice's capacity is taken to be
  its length) or holds no bytes.\<close>

fun Value_Slice_Bytes :: "gvalue \<Rightarrow> nat \<Rightarrow> panicv + byte list" where
  "Value_Slice_Bytes (VArray t xs) n =
     (if length xs < n then Inl (runtimePanic ''reflect.Value.Slice: slice index out of bounds'')
      else if elemKind t = KUint8 then Inr (map elemByte (take n xs))
      else Inl (runtimePanic ''reflect.Value.Bytes of non-byte slice''))"
| "Value_Slice_Bytes (VSlice t xs) n =
     (if length xs < n then Inl (runtimePanic ''reflect.Value.Slice: slice index out of bounds'')
      else if elemKind t = KUint8 then Inr (map elemByte (take n xs))
      else Inl (runtimePanic ''reflect.Value.Bytes of non-byte slice''))"
| "Value_Slice_Bytes (VNil t) n =
     (if Kind t = KSlice \<and> n = 0 \<and> elemKind t = KUint8 then Inr []
      else Inl (runtimePanic ''reflect.Value.Slice: slice index out of bounds''))"
| "Value_Slice_Bytes v n = Inl (runtimePanic ''reflect: call of reflect.Value.Slice on unsliceable Value'')"

text \<open>\<^verbatim>\<open>buf := make([]byte, n); reflect.Copy(reflect.ValueOf(buf), v)\<close>: the bytes of
  \<open>v\<close> copied over \<open>n\<close> zero bytes, as many as fit. The element type of \<open>v\<close> must be
  \<^verbatim>\<open>uint8\<close> itself; a string is copied byte by byte.\<close>

definition copyInto :: "nat \<Rightarrow> byte list \<Rightarrow> byte list" where
  "copyInto n src = take n src @ replicate (n - length src) 0"

fun Copy_buf :: "nat \<Rightarrow> gvalue \<Rightarrow> panicv + byte list" where
  "Copy_buf n (VArray t xs) =
     (if elemType t = Some uint8T then Inr (copyInto n (map elemByte xs))
      else Inl (runtimePanic ''reflect.Copy: type mismatch''))"
| "Copy_buf n (VSlice t xs) =
     (if elemType t = Some uint8T then Inr (copyInto n (map elemByte xs))
      else Inl (runtimePanic ''reflect.Copy: type mismatch''))"
| "Copy_buf n (VString t s) = Inr (copyInto n (map of_char s))"
| "Copy_buf n (VNil t) =
     (if Kind t = KSlice \<and> elemType t = Some uint8T then Inr (copyInto n [])
      else Inl (runtimePanic ''reflect.Copy: type mismatch''))"
| "Copy_buf n v = Inl (runtimePanic ''reflect: call of reflect.Copy on Value that is no array or slice'')"

text \<open>
  The Avro types of the gogen-avro library, as far as \<^verbatim>\<open>typeEncoder\<close> tells them
  apart: a reference to a record, enum or fixed definition, a union, a map, an array and
  the primitive types. \<open>errorSchema\<close> is the package's own type of gotype.go that
  holds a cached error in place of a schema. A schema is a finite tree here; a schema that
  refers to itself is outside the model (the source leaves recursive types to a TODO).
\<close>

datatype avroType =
    Reference schemaDefinition
  | UnionField "avroType list"
  | MapField avroType
  | ArrayField avroType
  | BoolField | BytesField | DoubleField | FloatField | IntField | LongField | StringField
  | NullField
  | errorSchema error
and schemaDefinition =
    RecordDefinition string "avroField list"
  | EnumDefinition string "string list"
  | FixedDefinition string nat
and avroField =
    avroField string avroType


text \<open>The package's \<^verbatim>\<open>Type\<close> (type.go is not part of the sources): the sources read
  its field \<^verbatim>\<open>avroType\<close> only.\<close>

datatype avro_Type = avro_Type (avroType_of: avroType)

text \<open>
  The values \<^verbatim>\<open>schemaForGoType\<close> builds as \<^verbatim>\<open>interface{}\<close>: a string, a number, a
  \<^verbatim>\<open>map[string]interface{}\<close> (its entries in the order of the source's literal), a
  slice, a \<^verbatim>\<open>json.RawMessage\<close> and a Go value (a default).
\<close>

datatype jvalue =
    JString string
  | JNum int
  | JObject "(string \<times> jvalue) list"
  | JArray "jvalue list"
  | JRaw string
  | JGo gvalue

text \<open>\<^verbatim>\<open>azTypeInfo\<close> (its file is not part of the sources) has the two fields the
  encoders read.\<close>

datatype azTypeInfo = azTypeInfo (ftype: "gtype option") (entries: "azTypeInfo list")

text \<open>
  What the sources take from outside, as parameters:
  \<^item> \<open>Float32bits_of\<close>: \<^verbatim>\<open>math.Float32bits(float32(f))\<close> on the bits of a float64;
  \<^item> \<open>Type_String\<close>: the name \<^verbatim>\<open>t.String()\<close> prints for a type;
  \<^item> \<open>newAzTypeInfo\<close> and \<open>ParseType\<close>: functions of the package whose files are not
    part of the sources;
  \<^item> \<open>json_Marshal\<close> and \<open>json_Unmarshal\<close> of encoding/json (the latter into a
    \<^verbatim>\<open>map[string]interface{}\<close>);
  \<^item> \<open>AvroRecord_Schema\<close>: the schema text a type declares through the method
    \<^verbatim>\<open>AvroRecord\<close>, \<open>None\<close> for a type without the method;
  \<^item> \<open>Stringer\<close>: the \<^verbatim>\<open>String\<close> method of a type, \<open>None\<close> for a type without
    one; for an integer type it gives, for the integer value of the receiver, the string
    returned, or \<open>None\<close> when the method panics.
\<close>

record goenv =
  Float32bits_of :: "64 word \<Rightarrow> 32 word"
  Type_String :: "gtype \<Rightarrow> string"
  newAzTypeInfo :: "gtype option \<Rightarrow> error + azTypeInfo"
  ParseType :: "string \<Rightarrow> error + avro_Type"
  json_Marshal :: "jvalue \<Rightarrow> error + string"
  json_Unmarshal :: "string \<Rightarrow> error + (string \<times> jvalue) list"
  AvroRecord_Schema :: "gtype \<Rightarrow> string option"
  Stringer :: "gtype \<Rightarrow> (int \<Rightarrow> string option) option"

section \<open>The variable-length zig-zag integers of encoding/binary\<close>

text \<open>\<^verbatim>\<open>binary.PutUvarint\<close>: seven bits a byte, low bits first, the high bit of a byte
  set when more follow.\<close>

function PutUvarint :: "64 word \<Rightarrow> byte list" where
  "PutUvarint x = (if 0x80 \<le> x then (ucast x OR 0x80) # PutUvarint (drop_bit 7 x) else [ucast x])"
  by pat_completeness auto
termination
proof (relation "measure unat")
  show "wf (measure unat)" by simp
next
  fix x :: "64 word"
  assume "0x80 \<le> x"
  then have "128 \<le> unat x" by (simp add: word_le_nat_alt)
  then have "unat x div 128 < unat x" by simp
  then show "(drop_bit 7 x, x) \<in> measure unat" by (simp add: drop_bit_eq_div unat_div)
qed

declare PutUvarint.simps [simp del]

text \<open>\<^verbatim>\<open>binary.PutVarint\<close>: the sign folded into the low bit.\<close>

definition PutVarint :: "64 word \<Rightarrow> byte list" where
  "PutVarint x = (let ux = push_bit 1 x in PutUvarint (if sint x < 0 then NOT ux else ux))"

section \<open>encode.go: the encoders\<close>

text \<open>The state of an encoding is the content of its buffer.\<close>

type_synonym encodeState = "byte list"

definition writeLong :: "encodeState \<Rightarrow> 64 word \<Rightarrow> encodeState" where
  "writeLong e x = e @ PutVarint x"

text \<open>An \<^verbatim>\<open>encoderFunc\<close> is a function value: one of the package's functions, or the
  \<^verbatim>\<open>encode\<close> method of a struct that holds the encoders of the components. The
  datatype lists these closures; \<open>encode\<close> below applies one.\<close>

datatype encoderFunc =
    ErrorEncoder error
  | StructEncoder "encoderFunc list"
  | LongEncoder
  | FixedEncoder nat
  | PtrUnionEncoder byte byte encoderFunc
  | UnionEncoder int "unionEncoderChoice list"
  | MapEncoder encoderFunc
  | ArrayEncoder encoderFunc
  | BoolEncoder
  | BytesEncoder
  | DoubleEncoder
  | FloatEncoder
  | StringEncoder
and unionEncoderChoice =
    unionEncoderChoice (choice_typ: "gtype option") (choice_enc: "encoderFunc option")

definition LittleEndian :: "nat \<Rightarrow> 'a::len word \<Rightarrow> byte list" where
  "LittleEndian n w = map (\<lambda>i. ucast (drop_bit (8 * i) w)) [0..<n]"

definition boolEncoder :: "encodeState \<Rightarrow> gvalue \<Rightarrow> panicv + encodeState" where
  "boolEncoder e v =
     (case Value_Bool v of Inl p \<Rightarrow> Inl p
      | Inr b \<Rightarrow> Inr (e @ [if b then 1 else 0]))"

definition longEncoder :: "encodeState \<Rightarrow> gvalue \<Rightarrow> panicv + encodeState" where
  "longEncoder e v =
     (case Value_Int v of Inl p \<Rightarrow> Inl p
      | Inr x \<Rightarrow> Inr (writeLong e x))"

definition floatEncoder :: "goenv \<Rightarrow> encodeState \<Rightarrow> gvalue \<Rightarrow> panicv + encodeState" where
  "floatEncoder env e v =
     (case Value_Float v of Inl p \<Rightarrow> Inl p
      | Inr f \<Rightarrow> Inr (e @ LittleEndian 4 (Float32bits_of env f)))"

definition doubleEncoder :: "encodeState \<Rightarrow> gvalue \<Rightarrow> panicv + encodeState" where
  "doubleEncoder e v =
     (case Value_Float v of Inl p \<Rightarrow> Inl p
      | Inr f \<Rightarrow> Inr (e @ LittleEndian 8 f))"

definition bytesEncoder :: "encodeState \<Rightarrow> gvalue \<Rightarrow> panicv + encodeState" where
  "bytesEncoder e v =
     (case Value_Bytes v of Inl p \<Rightarrow> Inl p
      | Inr data \<Rightarrow> Inr (writeLong e (of_nat (length data)) @ data))"

text \<open>\<^verbatim>\<open>v.String()\<close> does not panic on a value that is no string: it returns the type's
  name between \<^verbatim>\<open><\<close> and \<^verbatim>\<open> Value>\<close>.\<close>

fun Value_String :: "goenv \<Rightarrow> gvalue \<Rightarrow> string" where
  "Value_String env (VString t s) = s"
| "Value_String env v = ''<'' @ Type_String env (Value_Type v) @ '' Value>''"

definition stringEncoder :: "goenv \<Rightarrow> encodeState \<Rightarrow> gvalue \<Rightarrow> panicv + encodeState" where
  "stringEncoder env e v =
     (let s = Value_String env v
      in Inr (writeLong e (of_nat (length s)) @ map of_char s))"

definition fixedEncoder_encode :: "nat \<Rightarrow> encodeState \<Rightarrow> bool \<Rightarrow> gvalue \<Rightarrow> panicv + encodeState" where
  "fixedEncoder_encode sz e a v =
     (if a then (case Value_Slice_Bytes v sz of Inl p \<Rightarrow> Inl p | Inr bs \<Rightarrow> Inr (e @ bs))
      else (case Copy_buf sz v of Inl p \<Rightarrow> Inl p | Inr buf \<Rightarrow> Inr (e @ buf)))"

text \<open>A \<^verbatim>\<open>for\<close> loop over a list that stops at the first panic.\<close>

fun forEach :: "('s \<Rightarrow> 'a \<Rightarrow> panicv + 's) \<Rightarrow> 's \<Rightarrow> 'a list \<Rightarrow> panicv + 's" where
  "forEach f s [] = Inr s"
| "forEach f s (x # xs) = (case f s x of Inl p \<Rightarrow> Inl p | Inr s' \<Rightarrow> forEach f s' xs)"

text \<open>
  \<open>encode env enc e a v\<close> is the call \<^verbatim>\<open>enc(e, v)\<close>, where \<open>a\<close> is
  \<^verbatim>\<open>v.CanAddr()\<close>: the buffer after the call, or the panic that ended it.
  \<open>encodeFields\<close> is the loop of \<^verbatim>\<open>structEncoder.encode\<close> from field \<open>i\<close> on,
  \<open>encodeChoices\<close> the loop of \<^verbatim>\<open>unionEncoder.encode\<close> from choice \<open>i\<close> on. The
  constant \<^verbatim>\<open>sortMapKeys\<close> is false, so \<^verbatim>\<open>mapEncoder.encode\<close> takes the entries as
  \<^verbatim>\<open>MapRange\<close> yields them.
\<close>

fun encode :: "goenv \<Rightarrow> encoderFunc \<Rightarrow> encodeState \<Rightarrow> bool \<Rightarrow> gvalue \<Rightarrow> panicv + encodeState"
and encodeFields :: "goenv \<Rightarrow> encoderFunc list \<Rightarrow> encodeState \<Rightarrow> bool \<Rightarrow> gvalue \<Rightarrow> nat \<Rightarrow> panicv + encodeState"
and encodeChoices :: "goenv \<Rightarrow> unionEncoderChoice list \<Rightarrow> encodeState \<Rightarrow> bool \<Rightarrow> gvalue \<Rightarrow> nat \<Rightarrow> panicv + encodeState"
where
  "encode env (ErrorEncoder err) e a v = Inl (encodeError err)"
| "encode env (StructEncoder fs) e a v = encodeFields env fs e a v 0"
| "encode env LongEncoder e a v = longEncoder e v"
| "encode env (FixedEncoder sz) e a v = fixedEncoder_encode sz e a v"
| "encode env (PtrUnionEncoder index0 index1 encodeElem) e a v =
     (case Value_IsNil v of Inl p \<Rightarrow> Inl p
      | Inr True \<Rightarrow> Inr (writeLong e (ucast index0))
      | Inr False \<Rightarrow>
          (case Value_Elem v of Inl p \<Rightarrow> Inl p
           | Inr (a', x) \<Rightarrow> encode env encodeElem (writeLong e (ucast index1)) a' x))"
| "encode env (UnionEncoder nullIndex choices) e a v =
     (case Value_IsNil v of Inl p \<Rightarrow> Inl p
      | Inr True \<Rightarrow>
          (if nullIndex \<noteq> - 1 then Inr (writeLong e (of_int nullIndex))
           else Inl (encodeError (Errorf ''nil value not allowed'' [])))
      | Inr False \<Rightarrow>
          (case Value_Elem v of Inl p \<Rightarrow> Inl p
           | Inr (a', x) \<Rightarrow> encodeChoices env choices e a' x 0))"
| "encode env (MapEncoder encodeElem) e a v =
     (case Value_Len v of Inl p \<Rightarrow> Inl p
      | Inr n \<Rightarrow>
          (let e1 = writeLong e (of_nat n)
           in if n = 0 then Inr e1
              else (case Value_MapRange v of Inl p \<Rightarrow> Inl p
                    | Inr kvs \<Rightarrow>
                        (case forEach (\<lambda>e' (k, x).
                                 case stringEncoder env e' k of Inl p \<Rightarrow> Inl p
                                 | Inr e'' \<Rightarrow> encode env encodeElem e'' False x) e1 kvs of
                           Inl p \<Rightarrow> Inl p
                         | Inr e2 \<Rightarrow> Inr (writeLong e2 0)))))"
| "encode env (ArrayEncoder encodeElem) e a v =
     (case Value_Len v of Inl p \<Rightarrow> Inl p
      | Inr n \<Rightarrow>
          (let e1 = writeLong e (of_nat n)
           in if n = 0 then Inr e1
              else (case forEach (\<lambda>e' i.
                             case Value_Index a v i of Inl p \<Rightarrow> Inl p
                             | Inr (a', x) \<Rightarrow> encode env encodeElem e' a' x) e1 [0..<n] of
                      Inl p \<Rightarrow> Inl p
                    | Inr e2 \<Rightarrow> Inr (writeLong e2 0))))"
| "encode env BoolEncoder e a v = boolEncoder e v"
| "encode env BytesEncoder e a v = bytesEncoder e v"
| "encode env DoubleEncoder e a v = doubleEncoder e v"
| "encode env FloatEncoder e a v = floatEncoder env e v"
| "encode env StringEncoder e a v = stringEncoder env e v"
| "encodeFields env [] e a v i = Inr e"
| "encodeFields env (enc # fs) e a v i =
     (case Value_Field a v i of Inl p \<Rightarrow> Inl p
      | Inr (a', x) \<Rightarrow>
          (case encode env enc e a' x of Inl p \<Rightarrow> Inl p
           | Inr e' \<Rightarrow> encodeFields env fs e' a v (Suc i)))"
| "encodeChoices env [] e a v i =
     Inl (encodeError (Errorf ''unknown type for union %s'' [AType (Value_Type v)]))"
| "encodeChoices env (unionEncoderChoice ty en # choices) e a v i =
     (if ty = Some (Value_Type v)
      then (case en of
              None \<Rightarrow> Inl (runtimePanic ''invalid memory address or nil pointer dereference'')
            | Some f \<Rightarrow> encode env f (writeLong e (of_nat i)) a v)
      else encodeChoices env choices e a v (Suc i))"

section \<open>encode.go: building the encoder of a type\<close>

definition typeArg :: "gtype option \<Rightarrow> arg" where
  "typeArg t = (case t of None \<Rightarrow> ANilType | Some t' \<Rightarrow> AType t')"

definition nilTypePanic :: string where
  "nilTypePanic = ''invalid memory address or nil pointer dereference''"

definition indexPanic :: string where
  "indexPanic = ''index out of range''"

text \<open>\<^verbatim>\<open>t.Elem()\<close> panics on a nil type and on a type without element type.\<close>

fun Type_Elem :: "gtype option \<Rightarrow> string + gtype" where
  "Type_Elem None = Inl nilTypePanic"
| "Type_Elem (Some (ArrayT n len et)) = Inr et"
| "Type_Elem (Some (SliceT n et)) = Inr et"
| "Type_Elem (Some (MapT n kt et)) = Inr et"
| "Type_Elem (Some (PtrT n et)) = Inr et"
| "Type_Elem (Some t) = Inl ''reflect: Elem of invalid type''"

fun Type_Fields :: "gtype \<Rightarrow> StructField list" where
  "Type_Fields (StructT n fs) = fs"
| "Type_Fields t = []"

text \<open>
  \<open>typeEncoder\<close> returns the encoder, or the message of the panic of a
  \<^verbatim>\<open>reflect\<close> call or of an index out of range (for a mismatch it finds itself it
  returns an \<^verbatim>\<open>errorEncoder\<close>). \<open>recordFieldEncoders\<close> is the loop over the fields of a record
  definition, \<open>unionChoices\<close> the loop over \<^verbatim>\<open>info.entries\<close> for a union held in an
  interface, from entry \<open>i\<close> on, with the null index found so far.
\<close>

fun typeEncoder :: "goenv \<Rightarrow> avroType \<Rightarrow> gtype option \<Rightarrow> azTypeInfo \<Rightarrow> string + encoderFunc"
and recordFieldEncoders :: "goenv \<Rightarrow> avroField list \<Rightarrow> StructField list \<Rightarrow> azTypeInfo list \<Rightarrow> string + encoderFunc list"
and unionChoices :: "goenv \<Rightarrow> avroType list \<Rightarrow> azTypeInfo list \<Rightarrow> nat \<Rightarrow> int \<Rightarrow> string + int \<times> unionEncoderChoice list"
where
  "typeEncoder env (Reference (RecordDefinition name fs)) t info =
     (case t of
        None \<Rightarrow> Inl nilTypePanic
      | Some t' \<Rightarrow>
          if Kind t' \<noteq> KStruct then Inr (ErrorEncoder (Errorf ''expected struct'' []))
          else (case (if entries info = [] then newAzTypeInfo env (ftype info) else Inr info) of
                  Inl err \<Rightarrow>
                    Inr (ErrorEncoder (Errorf ''cannot get info for %s: %v'' [typeArg (ftype info), AErr err]))
                | Inr info1 \<Rightarrow>
                    if length (entries info1) \<noteq> length fs
                    then Inr (ErrorEncoder (Errorf ''entry count mismatch (info entries %d vs definition fields %d; %s vs %s)''
                           [ANum (int (length (entries info1))), ANum (int (length fs)), AType t', AStr name]))
                    else if length (Type_Fields t') \<noteq> length fs
                    then Inr (ErrorEncoder (Errorf ''field count mismatch (%d vs %d; %s vs %s)''
                           [ANum (int (length (Type_Fields t'))), ANum (int (length fs)), AType t', AStr name]))
                    else (case recordFieldEncoders env fs (Type_Fields t') (entries info1) of
                            Inl p \<Rightarrow> Inl p
                          | Inr encs \<Rightarrow> Inr (StructEncoder encs))))"
| "typeEncoder env (Reference (EnumDefinition name symbols)) t info = Inr LongEncoder"
| "typeEncoder env (Reference (FixedDefinition name sz)) t info = Inr (FixedEncoder sz)"
| "typeEncoder env (UnionField atypes) t info =
     (case t of
        None \<Rightarrow> Inl nilTypePanic
      | Some t' \<Rightarrow>
          if Kind t' = KPtr
          then (case atypes of
                  [a0, a1] \<Rightarrow>
                    (case entries info of
                       e0 # e1 # es \<Rightarrow>
                         if ftype e0 = None
                         then (case typeEncoder env a1 (ftype e1) e1 of
                                 Inl p \<Rightarrow> Inl p
                               | Inr encodeElem \<Rightarrow> Inr (PtrUnionEncoder 0 1 encodeElem))
                         else if ftype e1 = None
                         then (case typeEncoder env a0 (ftype e0) e0 of
                                 Inl p \<Rightarrow> Inl p
                               | Inr encodeElem \<Rightarrow> Inr (PtrUnionEncoder 1 0 encodeElem))
                         else Inr (ErrorEncoder (Errorf ''unexpected types in union'' []))
                     | _ \<Rightarrow> Inl indexPanic)
                | _ \<Rightarrow> Inr (ErrorEncoder (Errorf ''unexpected item type count in union'' [])))
          else if Kind t' = KInterface
          then (case unionChoices env atypes (entries info) 0 (- 1) of
                  Inl p \<Rightarrow> Inl p
                | Inr (nullIndex, choices) \<Rightarrow> Inr (UnionEncoder nullIndex choices))
          else Inr (ErrorEncoder (Errorf ''union type is not pointer or interface'' [])))"
| "typeEncoder env (MapField item) t info =
     (case Type_Elem t of
        Inl p \<Rightarrow> Inl p
      | Inr et \<Rightarrow>
          (case typeEncoder env item (Some et) info of
             Inl p \<Rightarrow> Inl p
           | Inr encodeElem \<Rightarrow> Inr (MapEncoder encodeElem)))"
| "typeEncoder env (ArrayField item) t info =
     (case Type_Elem t of
        Inl p \<Rightarrow> Inl p
      | Inr et \<Rightarrow>
          (case typeEncoder env item (Some et) info of
             Inl p \<Rightarrow> Inl p
           | Inr encodeElem \<Rightarrow> Inr (ArrayEncoder encodeElem)))"
| "typeEncoder env BoolField t info = Inr BoolEncoder"
| "typeEncoder env BytesField t info = Inr BytesEncoder"
| "typeEncoder env DoubleField t info = Inr DoubleEncoder"
| "typeEncoder env FloatField t info = Inr FloatEncoder"
| "typeEncoder env IntField t info = Inr LongEncoder"
| "typeEncoder env LongField t info = Inr LongEncoder"
| "typeEncoder env StringField t info = Inr StringEncoder"
| "typeEncoder env NullField t info =
     Inr (ErrorEncoder (Errorf ''unknown avro schema type %T'' [AStr ''*schema.NullField'']))"
| "typeEncoder env (errorSchema err) t info =
     Inr (ErrorEncoder (Errorf ''unknown avro schema type %T'' [AStr ''avro.errorSchema'']))"
| "recordFieldEncoders env [] sfs es = Inr []"
| "recordFieldEncoders env (avroField fname ft # fs) (sf # sfs) (entry # es) =
     (case typeEncoder env ft (Some (Type sf)) entry of
        Inl p \<Rightarrow> Inl p
      | Inr fenc \<Rightarrow>
          (case recordFieldEncoders env fs sfs es of
             Inl p \<Rightarrow> Inl p
           | Inr encs \<Rightarrow> Inr (fenc # encs)))"
| "recordFieldEncoders env (f # fs) sfs es = Inl indexPanic"
| "unionChoices env atypes [] i nullIndex = Inr (nullIndex, [])"
| "unionChoices env [] (entry # es) i nullIndex =
     (case ftype entry of
        None \<Rightarrow>
          (case unionChoices env [] es (Suc i) (int i) of
             Inl p \<Rightarrow> Inl p
           | Inr (n, cs) \<Rightarrow> Inr (n, unionEncoderChoice None None # cs))
      | Some ft \<Rightarrow> Inl indexPanic)"
| "unionChoices env (a # atypes) (entry # es) i nullIndex =
     (case ftype entry of
        None \<Rightarrow>
          (case unionChoices env atypes es (Suc i) (int i) of
             Inl p \<Rightarrow> Inl p
           | Inr (n, cs) \<Rightarrow> Inr (n, unionEncoderChoice None None # cs))
      | Some ft \<Rightarrow>
          (case typeEncoder env a (Some ft) entry of
             Inl p \<Rightarrow> Inl p
           | Inr cenc \<Rightarrow>
               (case unionChoices env atypes es (Suc i) nullIndex of
                  Inl p \<Rightarrow> Inl p
                | Inr (n, cs) \<Rightarrow> Inr (n, unionEncoderChoice (Some ft) (Some cenc) # cs))))"

section \<open>gotype.go: the schema of a Go type\<close>

text \<open>\<^verbatim>\<open>strings.Split(s, ",")\<close>, for a separator of one character: the pieces between
  the separators, one piece (the empty one) for the empty string.\<close>

fun Split :: "string \<Rightarrow> char \<Rightarrow> string list" where
  "Split [] sep = [[]]"
| "Split (c # cs) sep =
     (if c = sep then [] # Split cs sep
      else (case Split cs sep of [] \<Rightarrow> [[c]] | p # ps \<Rightarrow> (c # p) # ps))"

text \<open>
  \<^verbatim>\<open>jsonFieldName\<close>. \<open>Tag_json f\<close> is \<^verbatim>\<open>f.Tag.Get("json")\<close>. The second case
  of the \<^verbatim>\<open>switch\<close> reads \<^verbatim>\<open>parts[1]\<close>, which panics when the tag has no comma.
\<close>

definition jsonFieldName :: "StructField \<Rightarrow> string + string \<times> bool" where
  "jsonFieldName f =
     (if PkgPath f \<noteq> [] then Inr ([], False)
      else (case Split (Tag_json f) (CHR '','') of
              [] \<Rightarrow> Inl indexPanic
            | part0 # rest \<Rightarrow>
                (let omitEmpty = (''omitempty'' \<in> set rest)
                 in if part0 = [] then Inr (Name f, omitEmpty)
                    else (case rest of
                            [] \<Rightarrow> Inl indexPanic
                          | part1 # rest' \<Rightarrow>
                              if part1 = ''-'' then Inr ([], omitEmpty)
                              else Inr (part0, omitEmpty)))))"

definition maxEnum :: nat where
  "maxEnum = 250"

definition isSignedInt :: "kind \<Rightarrow> bool" where
  "isSignedInt k = (k \<in> {KInt, KInt8, KInt16, KInt32, KInt64})"

definition isUnsignedInt :: "kind \<Rightarrow> bool" where
  "isUnsignedInt k = (k \<in> {KUint, KUint8, KUint16, KUint32, KUint64})"

text \<open>\<^verbatim>\<open>reflect.Zero(t)\<close>.\<close>

fun Zero :: "gtype \<Rightarrow> gvalue"
and ZeroFields :: "StructField list \<Rightarrow> gvalue list"
where
  "Zero (BasicT n k) =
     (if k = KBool then VBool (BasicT n k) False
      else if isSignedInt k then VInt (BasicT n k) 0
      else if isUnsignedInt k \<or> k = KUintptr then VUint (BasicT n k) 0
      else if k = KFloat32 \<or> k = KFloat64 then VFloat (BasicT n k) 0
      else if k = KString then VString (BasicT n k) []
      else VNil (BasicT n k))"
| "Zero (ArrayT n len et) = VArray (ArrayT n len et) (replicate len (Zero et))"
| "Zero (SliceT n et) = VNil (SliceT n et)"
| "Zero (MapT n kt et) = VNil (MapT n kt et)"
| "Zero (PtrT n et) = VNil (PtrT n et)"
| "Zero (StructT n fs) = VStruct (StructT n fs) (ZeroFields fs)"
| "ZeroFields [] = []"
| "ZeroFields (StructField fname pkg tag anon ft # fs) = Zero ft # ZeroFields fs"

text \<open>
  \<^verbatim>\<open>reflect.New(t)\<close>: a \<^verbatim>\<open>Value\<close> that holds a pointer to a new zero value of
  \<open>t\<close>, with its addressability (\<^verbatim>\<open>CanAddr\<close>). The \<^verbatim>\<open>Value\<close> of the pointer is not
  addressable; only \<^verbatim>\<open>v.Elem()\<close>, which \<^verbatim>\<open>enumSymbols\<close> never takes, would be.
\<close>

definition reflect_New :: "gtype \<Rightarrow> bool \<times> gvalue" where
  "reflect_New t = (False, VPtr (PtrT [] t) (Zero t))"

text \<open>A 64-bit integer cut to the width of a kind, as \<^verbatim>\<open>SetInt\<close> and \<^verbatim>\<open>SetUint\<close>
  store it (\<^verbatim>\<open>int\<close> and \<^verbatim>\<open>uint\<close> are taken to be 64 bits wide).\<close>

definition truncInt :: "kind \<Rightarrow> 64 word \<Rightarrow> 64 word" where
  "truncInt k x =
     (if k = KInt8 then scast (ucast x :: 8 word)
      else if k = KInt16 then scast (ucast x :: 16 word)
      else if k = KInt32 then scast (ucast x :: 32 word)
      else x)"

definition truncUint :: "kind \<Rightarrow> 64 word \<Rightarrow> 64 word" where
  "truncUint k x =
     (if k = KUint8 then ucast (ucast x :: 8 word)
      else if k = KUint16 then ucast (ucast x :: 16 word)
      else if k = KUint32 then ucast (ucast x :: 32 word)
      else x)"

text \<open>
  \<^verbatim>\<open>v.SetInt(x)\<close> and \<^verbatim>\<open>v.SetUint(x)\<close> on a \<^verbatim>\<open>Value\<close> with addressability
  \<open>a\<close>: \<^verbatim>\<open>mustBeAssignable\<close> panics on a \<^verbatim>\<open>Value\<close> that is not addressable, then
  the call panics on a \<^verbatim>\<open>Value\<close> of another kind; otherwise the integer is stored.
\<close>

fun Value_SetInt :: "bool \<Rightarrow> gvalue \<Rightarrow> 64 word \<Rightarrow> string + gvalue" where
  "Value_SetInt a v x =
     (if \<not> a then Inl ''reflect: reflect.Value.SetInt using unaddressable value''
      else (case v of
              VInt t y \<Rightarrow> Inr (VInt t (truncInt (Kind t) x))
            | _ \<Rightarrow> Inl ''reflect: call of reflect.Value.SetInt on non-int Value''))"

fun Value_SetUint :: "bool \<Rightarrow> gvalue \<Rightarrow> 64 word \<Rightarrow> string + gvalue" where
  "Value_SetUint a v x =
     (if \<not> a then Inl ''reflect: reflect.Value.SetUint using unaddressable value''
      else (case v of
              VUint t y \<Rightarrow> Inr (VUint t (truncUint (Kind t) x))
            | _ \<Rightarrow> Inl ''reflect: call of reflect.Value.SetUint on non-uint Value''))"

text \<open>The integer a \<^verbatim>\<open>String\<close> method sees when it is called through the
  \<^verbatim>\<open>fmt.Stringer\<close> made of the \<^verbatim>\<open>Value\<close>: the integer itself, or the integer
  pointed to.\<close>

fun receiver_int :: "gvalue \<Rightarrow> int" where
  "receiver_int (VInt t x) = sint x"
| "receiver_int (VUint t x) = uint x"
| "receiver_int (VPtr t (VInt t' x)) = sint x"
| "receiver_int (VPtr t (VUint t' x)) = uint x"
| "receiver_int v = 0"

text \<open>
  \<^verbatim>\<open>symOf\<close> of \<^verbatim>\<open>enumSymbols\<close>, for the \<^verbatim>\<open>String\<close> method \<open>str\<close> of the type
  and the probe \<open>v\<close> (a \<^verbatim>\<open>Value\<close> with its addressability): \<^verbatim>\<open>setInt(i)\<close>, which
  is \<^verbatim>\<open>v.SetInt\<close> or, for an unsigned kind, \<^verbatim>\<open>v.SetUint\<close>; then
  \<^verbatim>\<open>vs.String()\<close>; then \<^verbatim>\<open>getIntVal()\<close>, which is \<^verbatim>\<open>v.Int()\<close> for every kind.
  When one of the three panics, the deferred \<^verbatim>\<open>recover\<close> sets \<^verbatim>\<open>ok = false\<close> and
  the other two results keep their zero values.
\<close>

definition symOf :: "(int \<Rightarrow> string option) \<Rightarrow> bool \<Rightarrow> bool \<times> gvalue \<Rightarrow> int \<Rightarrow> string \<times> 64 word \<times> bool" where
  "symOf str uns v i =
     (case (if uns then Value_SetUint (fst v) (snd v) (of_int i)
            else Value_SetInt (fst v) (snd v) (of_int i)) of
        Inl p \<Rightarrow> ([], 0, False)
      | Inr v' \<Rightarrow>
          (case str (receiver_int v') of
             None \<Rightarrow> ([], 0, False)
           | Some symb \<Rightarrow>
               (case Value_Int v' of
                  Inl p \<Rightarrow> ([], 0, False)
                | Inr actual \<Rightarrow> (symb, actual, True))))"

text \<open>The \<^verbatim>\<open>for\<close> loop of \<^verbatim>\<open>enumSymbols\<close> from \<open>i\<close> on. When \<^verbatim>\<open>symb == prev\<close>
  holds, \<open>syms\<close> is not empty (the first \<open>prev\<close> is the empty string, which ends the loop
  as a symbol), so \<^verbatim>\<open>syms[0 : len(syms)-1]\<close> is \<open>butlast syms\<close>.\<close>

function enumLoop :: "(int \<Rightarrow> string option) \<Rightarrow> bool \<Rightarrow> bool \<times> gvalue \<Rightarrow> nat \<Rightarrow> string \<Rightarrow> string list \<Rightarrow> string list" where
  "enumLoop str uns v i prev syms =
     (if i < maxEnum
      then (case symOf str uns v (int i) of
              (symb, actual, ok) \<Rightarrow>
                if \<not> ok \<or> CHR ''('' \<in> set symb \<or> symb = [] then syms
                else if symb = prev then butlast syms
                else enumLoop str uns v (Suc i) symb (syms @ [symb]))
      else [])"
  by pat_completeness auto
termination
  by (relation "measure (\<lambda>(str, uns, v, i, prev, syms). maxEnum - i)") auto

declare enumLoop.simps [simp del]

text \<open>\<^verbatim>\<open>enumSymbols\<close>. \<open>Stringer env t\<close> is the \<^verbatim>\<open>String\<close> method of the type, as
  the type assertion on \<^verbatim>\<open>reflect.Zero(t).Interface()\<close> finds it. The probe is
  \<^verbatim>\<open>reflect.New(t)\<close> itself.\<close>

definition enumSymbols :: "goenv \<Rightarrow> gtype \<Rightarrow> string list" where
  "enumSymbols env t =
     (if \<not> isSignedInt (Kind t) \<and> \<not> isUnsignedInt (Kind t) then []
      else (case Stringer env t of
              None \<Rightarrow> []
            | Some str \<Rightarrow>
                (case symOf str (isUnsignedInt (Kind t)) (reflect_New t) (- 1) of
                   (symb, actual, ok) \<Rightarrow>
                     if ok \<and> CHR ''('' \<notin> set symb then []
                     else enumLoop str (isUnsignedInt (Kind t)) (reflect_New t) 0 [] [])))"

fun Type_Len :: "gtype \<Rightarrow> nat" where
  "Type_Len (ArrayT n len et) = len"
| "Type_Len t = 0"

definition defaultForType :: "gtype \<Rightarrow> jvalue" where
  "defaultForType t =
     (if Kind t = KSlice then JGo (VSlice t [])
      else if Kind t = KMap then JGo (VMap t [])
      else if Kind t = KArray then JString (replicate (Type_Len t) (CHR 0x00))
      else JGo (Zero t))"

text \<open>\<^verbatim>\<open>goTypeSchema.defs\<close>, a \<^verbatim>\<open>map[reflect.Type]goTypeDef\<close>.\<close>

datatype goTypeDef = goTypeDef (def_name: string) (def_schema: jvalue)

type_synonym goTypeSchema = "(gtype \<times> goTypeDef) list"

definition defs_store :: "goTypeSchema \<Rightarrow> gtype \<Rightarrow> goTypeDef \<Rightarrow> goTypeSchema" where
  "defs_store defs t d = (t, d) # filter (\<lambda>(t', d'). t' \<noteq> t) defs"

definition defs_has_name :: "goTypeSchema \<Rightarrow> string \<Rightarrow> bool" where
  "defs_has_name defs n = list_ex (\<lambda>(t, d). def_name d = n) defs"

text \<open>\<^verbatim>\<open>def["name"].(string)\<close>: the empty string when the key is missing or holds no
  string.\<close>

definition name_of_def :: "(string \<times> jvalue) list \<Rightarrow> string" where
  "name_of_def d = (case map_of d ''name'' of Some (JString n) \<Rightarrow> n | _ \<Rightarrow> [])"

definition goTypeSchema_define :: "goenv \<Rightarrow> goTypeSchema \<Rightarrow> gtype \<Rightarrow> jvalue \<Rightarrow> jvalue result \<times> goTypeSchema" where
  "goTypeSchema_define env defs t def0 =
     (case (case def0 of
              JObject d \<Rightarrow> Ok d
            | JRaw raw \<Rightarrow> (case json_Unmarshal env raw of Inl err \<Rightarrow> Err err | Inr d \<Rightarrow> Ok d)
            | _ \<Rightarrow> Panic ''interface conversion: interface {} is not json.RawMessage'') of
        Panic p \<Rightarrow> (Panic p, defs)
      | Err err \<Rightarrow> (Err err, defs)
      | Ok d \<Rightarrow>
          (let n = name_of_def d
           in if n = [] then (Err (Errorf ''definition with empty name'' []), defs)
              else if defs_has_name defs n
              then (Err (Errorf ''duplicate struct type name %q'' [AStr n]), defs)
              else (Ok (JObject d), defs_store defs t (goTypeDef n (JObject d)))))"

text \<open>The decimal digits \<^verbatim>\<open>%d\<close> prints for a length.\<close>

function decimal :: "nat \<Rightarrow> string" where
  "decimal n = (if n < 10 then [char_of (48 + n)] else decimal (n div 10) @ [char_of (48 + n mod 10)])"
  by pat_completeness auto
termination
  by (relation "measure id") auto

declare decimal.simps [simp del]

text \<open>
  \<^verbatim>\<open>goTypeSchema.schemaForGoType\<close>, with the map \<^verbatim>\<open>gts.defs\<close> passed in and returned.
  \<open>schemaForFields\<close> is the loop over the fields of a struct type \<open>t\<close>, with the
  fields appended so far. A \<open>BasicT\<close> type is one of a kind without components.
\<close>

fun schemaForGoType :: "goenv \<Rightarrow> goTypeSchema \<Rightarrow> gtype \<Rightarrow> jvalue result \<times> goTypeSchema"
and schemaForFields :: "goenv \<Rightarrow> goTypeSchema \<Rightarrow> gtype \<Rightarrow> StructField list \<Rightarrow> jvalue list \<Rightarrow> jvalue list result \<times> goTypeSchema"
where
  "schemaForGoType env defs t =
     (case map_of defs t of
        Some d \<Rightarrow> (Ok (JString (def_name d)), defs)
      | None \<Rightarrow>
          (case AvroRecord_Schema env t of
             Some schema \<Rightarrow> goTypeSchema_define env defs t (JRaw schema)
           | None \<Rightarrow>
               (let syms = enumSymbols env t
                in if syms \<noteq> []
                   then (let def = JObject [(''name'', JString (Type_Name t)),
                                            (''symbols'', JArray (map JString syms)),
                                            (''default'', JString (hd syms))]
                         in (Ok def, defs_store defs t (goTypeDef (Type_Name t) def)))
                   else (case t of
                           BasicT n k \<Rightarrow>
                             if k = KString then (Ok (JString ''string''), defs)
                             else if k \<in> {KInt, KInt64, KUint32} then (Ok (JString ''long''), defs)
                             else if k \<in> {KInt32, KInt16, KUint16, KInt8, KUint8} then (Ok (JString ''int''), defs)
                             else if k = KFloat32 then (Ok (JString ''float''), defs)
                             else if k = KFloat64 then (Ok (JString ''double''), defs)
                             else if k = KInterface
                             then (Err (Errorf ''interface types (%s) not yet supported (use avro-generate-go instead)'' [AType t]), defs)
                             else (Err (Errorf ''cannot make Avro schema for Go type %s'' [AType t]), defs)
                         | SliceT n et \<Rightarrow>
                             (case schemaForGoType env defs et of
                                (Ok items, defs') \<Rightarrow>
                                  (Ok (JObject [(''type'', JString ''array''), (''items'', items)]), defs')
                              | (Err err, defs') \<Rightarrow> (Err err, defs')
                              | (Panic p, defs') \<Rightarrow> (Panic p, defs'))
                         | MapT n kt et \<Rightarrow>
                             if Kind kt \<noteq> KString then (Err (Errorf ''map must have string key'' []), defs)
                             else (case schemaForGoType env defs et of
                                     (Ok values, defs') \<Rightarrow>
                                       (Ok (JObject [(''type'', JString ''map''), (''values'', values)]), defs')
                                   | (Err err, defs') \<Rightarrow> (Err err, defs')
                                   | (Panic p, defs') \<Rightarrow> (Panic p, defs'))
                         | StructT n fs \<Rightarrow>
                             if n = [] then (Err (Errorf ''unnamed struct type'' []), defs)
                             else if defs_has_name defs n
                             then (Err (Errorf ''duplicate struct type name %q'' [AStr n]), defs)
                             else (case schemaForFields env defs t fs [] of
                                     (Ok flds, defs') \<Rightarrow>
                                       goTypeSchema_define env defs' t
                                         (JObject [(''name'', JString n), (''type'', JString ''record''),
                                                   (''fields'', JArray flds)])
                                   | (Err err, defs') \<Rightarrow> (Err err, defs')
                                   | (Panic p, defs') \<Rightarrow> (Panic p, defs'))
                         | ArrayT n len et \<Rightarrow>
                             if et \<noteq> uint8T
                             then (Err (Errorf ''the only array type supported is [...]byte, not %s'' [AType t]), defs)
                             else goTypeSchema_define env defs t
                                    (JObject [(''name'', JString (if n = [] then ''go.Fixed'' @ decimal len else n)),
                                              (''type'', JString ''fixed''), (''size'', JNum (int len))])
                         | PtrT n et \<Rightarrow>
                             if Kind et = KPtr
                             then (Err (Errorf ''can only cope with a single level of pointer indirection'' []), defs)
                             else (case schemaForGoType env defs et of
                                     (Ok elem, defs') \<Rightarrow> (Ok (JArray [JString ''null'', elem]), defs')
                                   | (Err err, defs') \<Rightarrow> (Err err, defs')
                                   | (Panic p, defs') \<Rightarrow> (Panic p, defs'))))))"
| "schemaForFields env defs t [] flds = (Ok flds, defs)"
| "schemaForFields env defs t (StructField fname pkg tag anon ft # fs) flds =
     (let f = StructField fname pkg tag anon ft
      in if Anonymous f
         then (Err (Errorf ''anonymous fields not yet supported (in %s)'' [AType t]), defs)
         else (case jsonFieldName f of
                 Inl p \<Rightarrow> (Panic p, defs)
               | Inr (name, omitEmpty) \<Rightarrow>
                   (case schemaForGoType env defs ft of
                      (Ok fty, defs') \<Rightarrow>
                        schemaForFields env defs' t fs
                          (flds @ [JObject [(''name'', JString name),
                                              (''default'', defaultForType (Type f)),
                                              (''type'', fty)]])
                    | (Err err, defs') \<Rightarrow> (Err err, defs')
                    | (Panic p, defs') \<Rightarrow> (Panic p, defs'))))"

declare schemaForGoType.simps [simp del]

definition schemaForGoTypeUncached :: "goenv \<Rightarrow> gtype \<Rightarrow> avro_Type option \<Rightarrow> avro_Type result" where
  "schemaForGoTypeUncached env t wType =
     (case fst (schemaForGoType env [] t) of
        Panic p \<Rightarrow> Panic p
      | Err err \<Rightarrow> Err err
      | Ok schemaVal \<Rightarrow>
          (case json_Marshal env schemaVal of
             Inl err \<Rightarrow> Err (Errorf ''cannot marshal generated schema: %v'' [AErr err])
           | Inr data \<Rightarrow>
               (case ParseType env data of
                  Inl err \<Rightarrow> Err err
                | Inr rType \<Rightarrow> Ok rType)))"

text \<open>
  The global \<^verbatim>\<open>goTypeToAvroType\<close>, a \<^verbatim>\<open>sync.Map\<close> from Go types to
  \<^verbatim>\<open>*Type\<close>, is passed in and returned. \<^verbatim>\<open>LoadOrStore\<close> keeps the value a key
  already has.
\<close>

type_synonym typeCache = "gtype \<Rightarrow> avro_Type option"

definition LoadOrStore :: "typeCache \<Rightarrow> gtype \<Rightarrow> avro_Type \<Rightarrow> typeCache" where
  "LoadOrStore m k v = (case m k of None \<Rightarrow> m(k \<mapsto> v) | Some v' \<Rightarrow> m)"

definition avroTypeOf :: "goenv \<Rightarrow> typeCache \<Rightarrow> gtype \<Rightarrow> avro_Type option \<Rightarrow> avro_Type result \<times> typeCache" where
  "avroTypeOf env cache t wType =
     (if wType \<noteq> None then (Err (Errorf ''TypeOf with writer type not yet supported'' []), cache)
      else (case cache t of
              Some rType \<Rightarrow>
                (case avroType_of rType of
                   errorSchema err \<Rightarrow> (Err err, cache)
                 | _ \<Rightarrow> (Ok rType, cache))
            | None \<Rightarrow>
                (case schemaForGoTypeUncached env t wType of
                   Panic p \<Rightarrow> (Panic p, cache)
                 | Err err \<Rightarrow> (Err err, LoadOrStore cache t (avro_Type (errorSchema err)))
                 | Ok rType \<Rightarrow> (Ok rType, LoadOrStore cache t rType))))"

section \<open>encode.go: Marshal\<close>

text \<open>
  What a call of \<^verbatim>\<open>Marshal\<close> does: it returns its three results (the bytes, the type
  and the error, each possibly nil), or it panics. \<open>recoverEncode\<close> is the part of
  \<^verbatim>\<open>Marshal\<close> under the deferred \<^verbatim>\<open>recover\<close>: the call of the encoder on an
  empty buffer and the \<^verbatim>\<open>return\<close>. A recovered \<^verbatim>\<open>*encodeError\<close> sets
  \<^verbatim>\<open>marshalErr\<close> and leaves the two unnamed results nil; any other panic is raised
  again.
\<close>

datatype marshal_result =
    Returns "byte list option" "avro_Type option" "error option"
  | Panics panicv

definition recoverEncode :: "goenv \<Rightarrow> encoderFunc \<Rightarrow> gvalue \<Rightarrow> avro_Type \<Rightarrow> marshal_result" where
  "recoverEncode env enc xv at =
     (case encode env enc [] False xv of
        Inr e \<Rightarrow> Returns (Some e) (Some at) None
      | Inl (encodeError err) \<Rightarrow> Returns None None (Some err)
      | Inl (runtimePanic r) \<Rightarrow> Panics (runtimePanic r))"

text \<open>\<open>Marshal env cache x wType\<close>: \<open>x\<close> is \<open>None\<close> for the nil interface, on which
  \<^verbatim>\<open>reflect.ValueOf(x).Type()\<close> panics.\<close>

definition Marshal :: "goenv \<Rightarrow> typeCache \<Rightarrow> gvalue option \<Rightarrow> avro_Type option \<Rightarrow> marshal_result \<times> typeCache" where
  "Marshal env cache x wType =
     (case x of
        None \<Rightarrow> (Panics (runtimePanic ''reflect: call of reflect.Value.Type on zero Value''), cache)
      | Some xv \<Rightarrow>
          (case avroTypeOf env cache (Value_Type xv) wType of
             (Panic p, cache') \<Rightarrow> (Panics (runtimePanic p), cache')
           | (Err err, cache') \<Rightarrow>
               (Returns None None (Some (Errorf ''cannot get schema info for %T'' [AType (Value_Type xv)])), cache')
           | (Ok at, cache') \<Rightarrow>
               (case newAzTypeInfo env (Some (Value_Type xv)) of
                  Inl err \<Rightarrow> (Returns None None (Some err), cache')
                | Inr info \<Rightarrow>
                    (case typeEncoder env (avroType_of at) (Some (Value_Type xv)) info of
                       Inl p \<Rightarrow> (Panics (runtimePanic p), cache')
                     | Inr enc \<Rightarrow> (recoverEncode env enc xv at, cache')))))"

section \<open>The decoder of the codec test\<close>

text \<open>
  The decoder (\<^verbatim>\<open>Unmarshal\<close>, the codec and the resolution of a writer schema
  against a reader schema) is not part of the sources; only the test of the codec and the
  generated type \<^verbatim>\<open>TestRecord\<close> are. The definitions of this section follow the words
  of the specification, for the scalar types and records the test uses.
\<close>

text \<open>Modelled from the spec: the native values a decode produces (section 3 of the
  specification gives no type for them; a record is its fields in the order of the
  reader schema).\<close>

datatype native =
    NNull
  | NBoolean bool
  | NInt int
  | NString string
  | NBytes "byte list"
  | NRecord "(string \<times> native) list"

text \<open>Modelled from the spec: "Schema, a tagged variant over Null, Boolean, Int, Long,
  ..., Bytes, String, ..., Record{name, ordered fields}"; "a Field is {name, Schema,
  optional default value, optional aliases}". The decoder itself is missing from the
  sources; floats, fixed, enums, arrays, maps, unions and aliases are left out.\<close>

datatype Schema =
    SNull | SBoolean | SInt | SLong | SBytes | SString
  | SRecord string "SField list"
and SField =
    SField (field_name: string) (field_schema: Schema) (field_default: "native option")

text \<open>Modelled from the spec: the decode errors of sections 4.2, 4.4 and 7: an
  incompatibility error naming the reader field that the writer lacks and that has no
  default, a mismatch of types, a schema id the registry does not know, and input that
  ends too early. The decoder that raises them is missing from the sources.\<close>

datatype decode_error =
    IncompatibleSchemas string
  | TypeMismatch
  | SchemaNotFound int
  | UnexpectedEOF

text \<open>Modelled from the spec: "Plan, a tree of compiled step nodes, one per record
  field ..."; for a record "a child step that decodes-and-stores", one that
  "decodes-and-discards" and "a step that populates it from the default without
  consuming input". The plan of a record keeps the steps in writer order and the names
  of the reader's fields in reader order. The compiler of plans is missing from the
  sources.\<close>

datatype plan =
    ReadNull | ReadBoolean | ReadInt | ReadLong | ReadBytes | ReadString
  | ReadRecord "step list" "string list"
and step =
    Store string plan
  | Discard plan
  | Populate string native

text \<open>Modelled from the spec: "writer and reader scalar kinds must be identical or
  related by an allowed widening (Int to Long ..., String and Bytes either way);
  mismatches are a resolution error". The resolution of scalars is missing from the
  sources.\<close>

fun compile_scalar :: "Schema \<Rightarrow> Schema \<Rightarrow> decode_error + plan" where
  "compile_scalar SNull SNull = Inr ReadNull"
| "compile_scalar SBoolean SBoolean = Inr ReadBoolean"
| "compile_scalar SInt SInt = Inr ReadInt"
| "compile_scalar SInt SLong = Inr ReadLong"
| "compile_scalar SLong SLong = Inr ReadLong"
| "compile_scalar SBytes SBytes = Inr ReadBytes"
| "compile_scalar SString SBytes = Inr ReadBytes"
| "compile_scalar SString SString = Inr ReadString"
| "compile_scalar SBytes SString = Inr ReadString"
| "compile_scalar w r = Inl TypeMismatch"

text \<open>Modelled from the spec: the lookup of a field by name ("match reader fields to
  writer fields by name (not position)"); the matching code is missing from the
  sources.\<close>

fun find_field :: "string \<Rightarrow> SField list \<Rightarrow> SField option" where
  "find_field n [] = None"
| "find_field n (f # fs) = (if field_name f = n then Some f else find_field n fs)"

text \<open>Modelled from the spec: "for each reader field with no matching writer field: if
  it has a default, emit a step that populates it from the default without consuming
  input; if it has no default, resolution fails with an incompatibility error naming the
  field". The code of this rule is missing from the sources.\<close>

fun populate_steps :: "SField list \<Rightarrow> SField list \<Rightarrow> decode_error + step list" where
  "populate_steps wfs [] = Inr []"
| "populate_steps wfs (r # rs) =
     (case find_field (field_name r) wfs of
        Some w \<Rightarrow> populate_steps wfs rs
      | None \<Rightarrow>
          (case field_default r of
             None \<Rightarrow> Inl (IncompatibleSchemas (field_name r))
           | Some d \<Rightarrow>
               (case populate_steps wfs rs of
                  Inl err \<Rightarrow> Inl err
                | Inr steps \<Rightarrow> Inr (Populate (field_name r) d # steps))))"

text \<open>Modelled from the spec: \<^verbatim>\<open>compile(writerSchema, readerSchema)\<close> of section 4.2,
  whose code is missing from the sources. "For each writer field, if a same-named reader
  field exists, recursively compile its type pair into a child step that
  decodes-and-stores; if no such reader field exists, recursively compile a child step
  that decodes-and-discards"; the steps for the reader's fields the writer lacks follow.
  \<open>compile_fields\<close> is the loop over the writer's fields.\<close>

fun compile :: "Schema \<Rightarrow> Schema \<Rightarrow> decode_error + plan"
and compile_fields :: "SField list \<Rightarrow> SField list \<Rightarrow> decode_error + step list"
where
  "compile (SRecord wn wfs) r =
     (case r of
        SRecord rn rfs \<Rightarrow>
          (case compile_fields wfs rfs of
             Inl err \<Rightarrow> Inl err
           | Inr stored \<Rightarrow>
               (case populate_steps wfs rfs of
                  Inl err \<Rightarrow> Inl err
                | Inr populated \<Rightarrow> Inr (ReadRecord (stored @ populated) (map field_name rfs))))
      | _ \<Rightarrow> Inl TypeMismatch)"
| "compile SNull r = compile_scalar SNull r"
| "compile SBoolean r = compile_scalar SBoolean r"
| "compile SInt r = compile_scalar SInt r"
| "compile SLong r = compile_scalar SLong r"
| "compile SBytes r = compile_scalar SBytes r"
| "compile SString r = compile_scalar SString r"
| "compile_fields [] rfs = Inr []"
| "compile_fields (SField n ws d # wfs) rfs =
     (case (case find_field n rfs of
              Some r \<Rightarrow> map_sum id (Store n) (compile ws (field_schema r))
            | None \<Rightarrow> map_sum id Discard (compile ws ws)) of
        Inl err \<Rightarrow> Inl err
      | Inr st \<Rightarrow>
          (case compile_fields wfs rfs of
             Inl err \<Rightarrow> Inl err
           | Inr steps \<Rightarrow> Inr (st # steps)))"

text \<open>Modelled from the spec: "integers use a variable-length, zig-zag-mapped encoding
  (minimum-byte-count, sign folded into low bit)", read from the front of the input; the
  reader of integers is missing from the sources.\<close>

fun read_uvarint :: "byte list \<Rightarrow> decode_error + nat \<times> byte list" where
  "read_uvarint [] = Inl UnexpectedEOF"
| "read_uvarint (b # bs) =
     (if b < 0x80 then Inr (unat b, bs)
      else (case read_uvarint bs of
              Inl err \<Rightarrow> Inl err
            | Inr (n, rest) \<Rightarrow> Inr (unat b - 128 + 128 * n, rest)))"

definition unzigzag :: "nat \<Rightarrow> int" where
  "unzigzag n = (if even n then int (n div 2) else - int ((n + 1) div 2))"

definition read_long :: "byte list \<Rightarrow> decode_error + int \<times> byte list" where
  "read_long bs = (case read_uvarint bs of Inl err \<Rightarrow> Inl err | Inr (n, rest) \<Rightarrow> Inr (unzigzag n, rest))"

text \<open>Modelled from the spec: "strings/byte sequences are length-prefixed
  (variable-length integer byte count) followed by raw bytes"; the reader is missing from
  the sources.\<close>

definition read_bytes :: "byte list \<Rightarrow> decode_error + byte list \<times> byte list" where
  "read_bytes bs =
     (case read_long bs of
        Inl err \<Rightarrow> Inl err
      | Inr (n, rest) \<Rightarrow>
          if n < 0 \<or> int (length rest) < n then Inl UnexpectedEOF
          else Inr (take (nat n) rest, drop (nat n) rest))"

text \<open>Modelled from the spec: the execution of a plan, missing from the sources:
  "decode walks the byte stream consuming exactly the writer's layout and populating only
  the reader's target fields". \<open>run_steps\<close> runs the steps of a record in writer order
  and collects the fields stored or populated; the record is then put in reader
  order.\<close>

fun run_plan :: "plan \<Rightarrow> byte list \<Rightarrow> decode_error + native \<times> byte list"
and run_steps :: "step list \<Rightarrow> byte list \<Rightarrow> (string \<times> native) list \<Rightarrow> decode_error + (string \<times> native) list \<times> byte list"
where
  "run_plan ReadNull bs = Inr (NNull, bs)"
| "run_plan ReadBoolean bs =
     (case bs of [] \<Rightarrow> Inl UnexpectedEOF | b # rest \<Rightarrow> Inr (NBoolean (b \<noteq> 0), rest))"
| "run_plan ReadInt bs = map_sum id (\<lambda>(n, rest). (NInt n, rest)) (read_long bs)"
| "run_plan ReadLong bs = map_sum id (\<lambda>(n, rest). (NInt n, rest)) (read_long bs)"
| "run_plan ReadBytes bs = map_sum id (\<lambda>(b, rest). (NBytes b, rest)) (read_bytes bs)"
| "run_plan ReadString bs =
     map_sum id (\<lambda>(b, rest). (NString (map (\<lambda>w. char_of (unat w)) b), rest)) (read_bytes bs)"
| "run_plan (ReadRecord steps names) bs =
     (case run_steps steps bs [] of
        Inl err \<Rightarrow> Inl err
      | Inr (found, rest) \<Rightarrow>
          Inr (NRecord (map (\<lambda>n. (n, case map_of found n of None \<Rightarrow> NNull | Some v \<Rightarrow> v)) names), rest))"
| "run_steps [] bs found = Inr (found, bs)"
| "run_steps (Store n p # steps) bs found =
     (case run_plan p bs of
        Inl err \<Rightarrow> Inl err
      | Inr (v, rest) \<Rightarrow> run_steps steps rest (found @ [(n, v)]))"
| "run_steps (Discard p # steps) bs found =
     (case run_plan p bs of
        Inl err \<Rightarrow> Inl err
      | Inr (v, rest) \<Rightarrow> run_steps steps rest found)"
| "run_steps (Populate n d # steps) bs found = run_steps steps bs (found @ [(n, d)])"

text \<open>\<^verbatim>\<open>mapSchemaGetter.SchemaID\<close> of the codec test: the first byte of the message is
  the schema id, the rest the payload.\<close>

definition SchemaID :: "byte list \<Rightarrow> int \<times> byte list" where
  "SchemaID msg = (case msg of [] \<Rightarrow> (0, []) | b # rest \<Rightarrow> (uint b, rest))"

text \<open>\<^verbatim>\<open>mapSchemaGetter.SchemaForID\<close> of the codec test, on a registry that holds the
  schemas parsed (the parser of schema texts is outside the specification's core).\<close>

definition SchemaForID :: "(int \<Rightarrow> Schema option) \<Rightarrow> int \<Rightarrow> decode_error + Schema" where
  "SchemaForID m id' = (case m id' of None \<Rightarrow> Inl (SchemaNotFound id') | Some s \<Rightarrow> Inr s)"

text \<open>Modelled from the spec: \<^verbatim>\<open>decode(bytes, &target)\<close> of section 4.4, missing from
  the sources: it "extracts the schema id and remaining payload, fetches schema text
  for unseen ids, ... and compiles a Plan against (writerSchema,
  readerSchema-of-target-type)", then runs the plan on the payload.\<close>

definition codec_Unmarshal :: "(int \<Rightarrow> Schema option) \<Rightarrow> Schema \<Rightarrow> byte list \<Rightarrow> decode_error + native" where
  "codec_Unmarshal registry reader msg =
     (case SchemaID msg of
        (wid, payload) \<Rightarrow>
          (case SchemaForID registry wid of
             Inl err \<Rightarrow> Inl err
           | Inr writer \<Rightarrow>
               (case compile writer reader of
                  Inl err \<Rightarrow> Inl err
                | Inr p \<Rightarrow> map_sum id fst (run_plan p payload))))"

text \<open>The registry of \<^verbatim>\<open>TestCodec\<close> and the schema the generated type
  \<^verbatim>\<open>TestRecord\<close> declares: the field A with the default 42, then the field B.\<close>

definition testRegistry :: "int \<Rightarrow> Schema option" where
  "testRegistry i =
     (if i = 1 then Some (SRecord ''TestRecord'' [SField ''B'' SInt None, SField ''A'' SInt None])
      else if i = 2 then Some (SRecord ''TestRecord'' [SField ''B'' SInt None])
      else if i = 3 then Some (SRecord ''TestRecord'' [SField ''A'' SInt None])
      else if i = 13 then Some (SRecord ''TestRecord'' [SField ''A'' SString None])
      else None)"

definition TestRecord_Schema :: Schema where
  "TestRecord_Schema =
     SRecord ''TestRecord'' [SField ''A'' SInt (Some (NInt 42)), SField ''B'' SInt None]"

section \<open>Inputs of the examples\<close>

text \<open>An environment for the examples: a type prints as its name, no type has a
  \<^verbatim>\<open>String\<close> or \<^verbatim>\<open>AvroRecord\<close> method, and \<^verbatim>\<open>newAzTypeInfo\<close> returns an
  info without entries.\<close>

definition testenv :: goenv where
  "testenv = \<lparr>Float32bits_of = (\<lambda>f. 0), Type_String = (\<lambda>t. Type_Name t),
     newAzTypeInfo = (\<lambda>t. Inr (azTypeInfo t [])),
     ParseType = (\<lambda>s. Inl (LibError ''no parser'')),
     json_Marshal = (\<lambda>j. Inl (LibError ''no encoding'')),
     json_Unmarshal = (\<lambda>s. Inl (LibError ''no decoding'')),
     AvroRecord_Schema = (\<lambda>t. None), Stringer = (\<lambda>t. None)\<rparr>"

definition int64T :: gtype where "int64T = BasicT ''int64'' KInt64"
definition stringT :: gtype where "stringT = BasicT ''string'' KString"

text \<open>A generated struct type \<^verbatim>\<open>R\<close> with one field of interface type, which declares
  its own schema (a record with one field, a union of null and long), and an environment
  in which \<^verbatim>\<open>R\<close> has the method \<^verbatim>\<open>AvroRecord\<close>, the schema text (abbreviated)
  parses to that schema, and \<^verbatim>\<open>newAzTypeInfo\<close> lists the two alternatives of the
  union for the field.\<close>

definition ifaceT :: gtype where
  "ifaceT = BasicT ''interface {}'' KInterface"

definition recT :: gtype where
  "recT = StructT ''R'' [StructField ''F'' [] [] False ifaceT]"

definition recSchema :: avroType where
  "recSchema = Reference (RecordDefinition ''R'' [avroField ''F'' (UnionField [NullField, LongField])])"

definition genenv :: goenv where
  "genenv = testenv
     \<lparr>newAzTypeInfo := (\<lambda>t. Inr (azTypeInfo t
          [azTypeInfo (Some ifaceT) [azTypeInfo None [], azTypeInfo (Some int64T) []]])),
      ParseType := (\<lambda>s. Inr (avro_Type recSchema)),
      json_Marshal := (\<lambda>j. Inr ''record R {F: [null, long]}''),
      json_Unmarshal := (\<lambda>s. Inr [(''name'', JString ''R'')]),
      AvroRecord_Schema := (\<lambda>t. if t = recT then Some ''record R {F: [null, long]}'' else None)\<rparr>"

text \<open>An integer type \<^verbatim>\<open>E\<close> with a \<^verbatim>\<open>String\<close> method in the style of the
  stringer tool: "A" for 0, "B" for 1 and for 2, and a string with a bracket for every
  other value. The \<^verbatim>\<open>String\<close> method of the type \<^verbatim>\<open>P\<close> returns "minus" for
  -1, without a bracket.\<close>

definition enumT :: gtype where
  "enumT = BasicT ''E'' KInt"

definition enumvs :: "int \<Rightarrow> string option" where
  "enumvs i = (if i = 0 then Some ''A'' else if i = 1 \<or> i = 2 then Some ''B'' else Some ''E(n)'')"

definition plainT :: gtype where
  "plainT = BasicT ''P'' KInt32"

definition plainvs :: "int \<Rightarrow> string option" where
  "plainvs i = (if i = - 1 then Some ''minus'' else if i = 0 then Some ''zero'' else Some ''P(n)'')"

definition enumenv :: goenv where
  "enumenv = testenv
     \<lparr>Stringer := (\<lambda>t. if t = enumT then Some enumvs else if t = plainT then Some plainvs else None)\<rparr>"

text \<open>An environment in which the schema "long" that \<^verbatim>\<open>schemaForGoType\<close> returns
  is printed by \<^verbatim>\<open>json.Marshal\<close> and parsed by \<^verbatim>\<open>ParseType\<close> to the long type.\<close>

definition uint32T :: gtype where
  "uint32T = BasicT ''uint32'' KUint32"

definition longenv :: goenv where
  "longenv = testenv
     \<lparr>ParseType := (\<lambda>s. Inr (avro_Type LongField)),
      json_Marshal := (\<lambda>j. Inr ''long'')\<rparr>"

text \<open>The cache after a sequence of later calls of \<^verbatim>\<open>avroTypeOf\<close>, each with its
  type and writer type.\<close>

fun avroTypeOf_calls :: "goenv \<Rightarrow> typeCache \<Rightarrow> (gtype \<times> avro_Type option) list \<Rightarrow> typeCache" where
  "avroTypeOf_calls env cache [] = cache"
| "avroTypeOf_calls env cache ((t, wType) # calls) =
     avroTypeOf_calls env (snd (avroTypeOf env cache t wType)) calls"

section \<open>Properties of the encoders\<close>

text \<open>An encoder only appends to the buffer: what it writes does not depend on what the
  buffer holds.\<close>

lemma forEach_append:
  assumes "\<And>s x. x \<in> set xs \<Longrightarrow> f s x = map_sum id ((@) s) (f [] x)"
  shows "forEach f s xs = map_sum id ((@) s) (forEach f [] xs)"
  using assms
proof (induction xs arbitrary: s)
  case Nil
  then show ?case by simp
next
  case (Cons x xs)
  have fx: "f s x = map_sum id ((@) s) (f [] x)"
    by (rule Cons.prems) simp
  have rest: "\<And>s'. forEach f s' xs = map_sum id ((@) s') (forEach f [] xs)"
    by (rule Cons.IH) (rule Cons.prems, simp)
  show ?case
  proof (cases "f [] x")
    case (Inl p)
    then show ?thesis using fx by simp
  next
    case (Inr bs)
    then have 1: "f s x = Inr (s @ bs)" using fx by simp
    show ?thesis
      using Inr 1 rest [of "s @ bs"] rest [of bs]
      by (cases "forEach f [] xs") simp_all
  qed
qed

lemma encode_append_all:
  fixes e0 :: encodeState
  shows "\<forall>e. encode env enc e a v = map_sum id ((@) e) (encode env enc [] a v)"
  and "\<forall>e. encodeFields env fs e a v i = map_sum id ((@) e) (encodeFields env fs [] a v i)"
  and "\<forall>e. encodeChoices env cs e a v i = map_sum id ((@) e) (encodeChoices env cs [] a v i)"
proof (induct env enc e0 a v and env fs e0 a v i and env cs e0 a v i
       rule: encode_encodeFields_encodeChoices.induct)
  case (1 env err e a v)
  then show ?case by simp
next
  case (2 env fs e a v)
  show ?case unfolding encode.simps by (rule 2)
next
  case (3 env e a v)
  then show ?case by (simp add: longEncoder_def writeLong_def split: sum.splits)
next
  case (4 env sz e a v)
  then show ?case by (simp add: fixedEncoder_encode_def split: sum.splits)
next
  case (5 env index0 index1 encodeElem e a v)
  show ?case
  proof
    fix e'
    show "encode env (PtrUnionEncoder index0 index1 encodeElem) e' a v =
          map_sum id ((@) e') (encode env (PtrUnionEncoder index0 index1 encodeElem) [] a v)"
    proof (cases "Value_IsNil v")
      case (Inl p)
      then show ?thesis by simp
    next
      case (Inr b)
      show ?thesis
      proof (cases b)
        case True
        then show ?thesis using Inr by (simp add: writeLong_def)
      next
        case False
        show ?thesis
        proof (cases "Value_Elem v")
          case (Inl p)
          then show ?thesis using Inr False by simp
        next
          case (Inr ax)
          obtain a' x where ax: "ax = (a', x)" by (cases ax)
          have bF: "b = False" using False by simp
          have ih: "\<And>e. encode env encodeElem e a' x = map_sum id ((@) e) (encode env encodeElem [] a' x)"
            using 5 [OF \<open>Value_IsNil v = Inr b\<close> bF Inr ax [symmetric]] by blast
          show ?thesis
            using \<open>Value_IsNil v = Inr b\<close> False Inr ax
              ih [of "writeLong e' (ucast index1)"] ih [of "writeLong [] (ucast index1)"]
            by (cases "encode env encodeElem [] a' x") (simp_all add: writeLong_def)
        qed
      qed
    qed
  qed
next
  case (6 env nullIndex choices e a v)
  show ?case
  proof
    fix e'
    show "encode env (UnionEncoder nullIndex choices) e' a v =
          map_sum id ((@) e') (encode env (UnionEncoder nullIndex choices) [] a v)"
    proof (cases "Value_IsNil v")
      case (Inl p)
      then show ?thesis by simp
    next
      case (Inr b)
      show ?thesis
      proof (cases b)
        case True
        then show ?thesis using Inr by (simp add: writeLong_def)
      next
        case False
        show ?thesis
        proof (cases "Value_Elem v")
          case (Inl p)
          then show ?thesis using Inr False by simp
        next
          case (Inr ax)
          obtain a' x where ax: "ax = (a', x)" by (cases ax)
          have bF: "b = False" using False by simp
          have ih: "encodeChoices env choices e' a' x 0 =
                    map_sum id ((@) e') (encodeChoices env choices [] a' x 0)"
            using 6 [OF \<open>Value_IsNil v = Inr b\<close> bF Inr ax [symmetric]] by blast
          show ?thesis
            using \<open>Value_IsNil v = Inr b\<close> False Inr ax ih by simp
        qed
      qed
    qed
  qed
next
  case (7 env encodeElem e a v)
  show ?case
  proof
    fix e'
    show "encode env (MapEncoder encodeElem) e' a v =
          map_sum id ((@) e') (encode env (MapEncoder encodeElem) [] a v)"
    proof (cases "Value_Len v")
      case (Inl p)
      then show ?thesis by simp
    next
      case len: (Inr n)
      show ?thesis
      proof (cases "n = 0")
        case True
        then show ?thesis using len by (simp add: writeLong_def)
      next
        case False
        show ?thesis
        proof (cases "Value_MapRange v")
          case (Inl p)
          then show ?thesis using len False by simp
        next
          case mr: (Inr kvs)
          have sk: "stringEncoder env [] (VNil uint8T) =
                    Inr (writeLong [] (of_nat (length (Value_String env (VNil uint8T))))
                         @ map of_char (Value_String env (VNil uint8T)))"
            by (simp add: stringEncoder_def Let_def)
          have ih: "\<And>s x. encode env encodeElem s False x =
                     map_sum id ((@) s) (encode env encodeElem [] False x)"
            using 7 [OF len refl False mr sk] by blast
          have step: "\<And>s kx. (case kx of (k, x) \<Rightarrow>
                         (case stringEncoder env s k of Inl p \<Rightarrow> Inl p
                          | Inr e'' \<Rightarrow> encode env encodeElem e'' False x)) =
                       map_sum id ((@) s) (case kx of (k, x) \<Rightarrow>
                         (case stringEncoder env [] k of Inl p \<Rightarrow> Inl p
                          | Inr e'' \<Rightarrow> encode env encodeElem e'' False x))"
          proof -
            fix s :: encodeState and kx :: "gvalue \<times> gvalue"
            obtain k x where kx: "kx = (k, x)" by (cases kx)
            define kb where "kb = PutVarint (of_nat (length (Value_String env k))) @ map of_char (Value_String env k)"
            have s1: "stringEncoder env s k = Inr (s @ kb)" and s2: "stringEncoder env [] k = Inr kb"
              by (simp_all add: stringEncoder_def Let_def writeLong_def kb_def)
            show "(case kx of (k, x) \<Rightarrow>
                         (case stringEncoder env s k of Inl p \<Rightarrow> Inl p
                          | Inr e'' \<Rightarrow> encode env encodeElem e'' False x)) =
                       map_sum id ((@) s) (case kx of (k, x) \<Rightarrow>
                         (case stringEncoder env [] k of Inl p \<Rightarrow> Inl p
                          | Inr e'' \<Rightarrow> encode env encodeElem e'' False x))"
              using ih [of "s @ kb" x] ih [of kb x] kx s1 s2
              by (cases "encode env encodeElem [] False x") simp_all
          qed
          have fe: "\<And>s. forEach (\<lambda>e' (k, x). case stringEncoder env e' k of Inl p \<Rightarrow> Inl p
                         | Inr e'' \<Rightarrow> encode env encodeElem e'' False x) s kvs =
                    map_sum id ((@) s) (forEach (\<lambda>e' (k, x). case stringEncoder env e' k of Inl p \<Rightarrow> Inl p
                         | Inr e'' \<Rightarrow> encode env encodeElem e'' False x) [] kvs)"
            by (rule forEach_append) (rule step)
          show ?thesis
            using len False mr fe [of "e' @ PutVarint (of_nat n)"] fe [of "PutVarint (of_nat n)"]
            by (cases "forEach (\<lambda>e' (k, x). case stringEncoder env e' k of Inl p \<Rightarrow> Inl p
                         | Inr e'' \<Rightarrow> encode env encodeElem e'' False x) [] kvs")
               (simp_all add: writeLong_def Let_def)
        qed
      qed
    qed
  qed
next
  case (8 env encodeElem e a v)
  show ?case
  proof
    fix e'
    show "encode env (ArrayEncoder encodeElem) e' a v =
          map_sum id ((@) e') (encode env (ArrayEncoder encodeElem) [] a v)"
    proof (cases "Value_Len v")
      case (Inl p)
      then show ?thesis by simp
    next
      case len: (Inr n)
      show ?thesis
      proof (cases "n = 0")
        case True
        then show ?thesis using len by (simp add: writeLong_def)
      next
        case False
        have step: "\<And>s i. (case Value_Index a v i of Inl p \<Rightarrow> Inl p
                        | Inr (a', x) \<Rightarrow> encode env encodeElem s a' x) =
                     map_sum id ((@) s) (case Value_Index a v i of Inl p \<Rightarrow> Inl p
                        | Inr (a', x) \<Rightarrow> encode env encodeElem [] a' x)"
        proof -
          fix s :: encodeState and i :: nat
          show "(case Value_Index a v i of Inl p \<Rightarrow> Inl p
                        | Inr (a', x) \<Rightarrow> encode env encodeElem s a' x) =
                     map_sum id ((@) s) (case Value_Index a v i of Inl p \<Rightarrow> Inl p
                        | Inr (a', x) \<Rightarrow> encode env encodeElem [] a' x)"
          proof (cases "Value_Index a v i")
            case (Inl p)
            then show ?thesis by simp
          next
            case (Inr ax)
            obtain a' x where ax: "ax = (a', x)" by (cases ax)
            have "encode env encodeElem s a' x = map_sum id ((@) s) (encode env encodeElem [] a' x)"
              using 8 [OF len refl False Inr ax [symmetric]] by blast
            then show ?thesis using Inr ax by simp
          qed
        qed
        have fe: "\<And>s. forEach (\<lambda>e' i. case Value_Index a v i of Inl p \<Rightarrow> Inl p
                         | Inr (a', x) \<Rightarrow> encode env encodeElem e' a' x) s [0..<n] =
                    map_sum id ((@) s) (forEach (\<lambda>e' i. case Value_Index a v i of Inl p \<Rightarrow> Inl p
                         | Inr (a', x) \<Rightarrow> encode env encodeElem e' a' x) [] [0..<n])"
          by (rule forEach_append) (rule step)
        show ?thesis
          using len False fe [of "e' @ PutVarint (of_nat n)"] fe [of "PutVarint (of_nat n)"]
          by (cases "forEach (\<lambda>e' i. case Value_Index a v i of Inl p \<Rightarrow> Inl p
                         | Inr (a', x) \<Rightarrow> encode env encodeElem e' a' x) [] [0..<n]")
             (simp_all add: writeLong_def Let_def)
      qed
    qed
  qed
next
  case (9 env e a v)
  then show ?case by (simp add: boolEncoder_def split: sum.splits)
next
  case (10 env e a v)
  then show ?case by (simp add: bytesEncoder_def writeLong_def split: sum.splits)
next
  case (11 env e a v)
  then show ?case by (simp add: doubleEncoder_def split: sum.splits)
next
  case (12 env e a v)
  then show ?case by (simp add: floatEncoder_def split: sum.splits)
next
  case (13 env e a v)
  then show ?case by (simp add: stringEncoder_def writeLong_def Let_def)
next
  case (14 env e a v i)
  then show ?case by simp
next
  case (15 env enc fs e a v i)
  show ?case
  proof
    fix e'
    show "encodeFields env (enc # fs) e' a v i =
          map_sum id ((@) e') (encodeFields env (enc # fs) [] a v i)"
    proof (cases "Value_Field a v i")
      case (Inl p)
      then show ?thesis by simp
    next
      case (Inr ax)
      obtain a' x where ax: "ax = (a', x)" by (cases ax)
      have ih1: "\<And>s. encode env enc s a' x = map_sum id ((@) s) (encode env enc [] a' x)"
        using "15.hyps"(1) [OF Inr ax [symmetric]] by blast
      show ?thesis
      proof (cases "encode env enc [] a' x")
        case (Inl p)
        then show ?thesis using Inr ax ih1 [of e'] by simp
      next
        case r: (Inr bs)
        have r': "encode env enc e a' x = Inr (e @ bs)" using ih1 [of e] r by simp
        have ih2: "\<And>s. encodeFields env fs s a v (Suc i) =
                    map_sum id ((@) s) (encodeFields env fs [] a v (Suc i))"
          using "15.hyps"(2) [OF Inr ax [symmetric] r'] by blast
        show ?thesis
          using Inr ax r ih1 [of e'] ih2 [of "e' @ bs"] ih2 [of bs]
          by (cases "encodeFields env fs [] a v (Suc i)") simp_all
      qed
    qed
  qed
next
  case (16 env e a v i)
  then show ?case by simp
next
  case (17 env ty en choices e a v i)
  show ?case
  proof
    fix e'
    show "encodeChoices env (unionEncoderChoice ty en # choices) e' a v i =
          map_sum id ((@) e') (encodeChoices env (unionEncoderChoice ty en # choices) [] a v i)"
    proof (cases "ty = Some (Value_Type v)")
      case True
      show ?thesis
      proof (cases en)
        case None
        then show ?thesis using True by simp
      next
        case (Some f)
        have ih: "\<And>s. encode env f s a v = map_sum id ((@) s) (encode env f [] a v)"
          using "17.hyps"(1) [OF True Some] by blast
        show ?thesis
          using True Some ih [of "writeLong e' (of_nat i)"] ih [of "writeLong [] (of_nat i)"]
          by (cases "encode env f [] a v") (simp_all add: writeLong_def)
      qed
    next
      case False
      have "encodeChoices env choices e' a v (Suc i) =
            map_sum id ((@) e') (encodeChoices env choices [] a v (Suc i))"
        using "17.hyps"(2) [OF False] by blast
      then show ?thesis using False by simp
    qed
  qed
qed

lemma encode_append:
  "encode env enc e a v = map_sum id ((@) e) (encode env enc [] a v)"
  using encode_append_all(1) by blast

lemma forEach_cong_set:
  assumes "\<And>s x. x \<in> set xs \<Longrightarrow> f s x = g s x"
  shows "forEach f s xs = forEach g s xs"
  using assms by (induction xs arbitrary: s) (auto split: sum.splits)

lemma forEach_map: "forEach (\<lambda>s i. g s (h i)) s is = forEach g s (map h is)"
  by (induction "is" arbitrary: s) (auto split: sum.splits)

lemma forEach_concat:
  assumes "list_all2 (\<lambda>x bs. f [] x = Inr bs) xs bss"
    and "\<And>s x. x \<in> set xs \<Longrightarrow> f s x = map_sum id ((@) s) (f [] x)"
  shows "forEach f s xs = Inr (s @ concat bss)"
  using assms
proof (induction xs bss arbitrary: s rule: list_all2_induct)
  case Nil
  then show ?case by simp
next
  case (Cons x xs bs bss)
  have "f s x = map_sum id ((@) s) (f [] x)" by (rule Cons.prems) simp
  then have 1: "f s x = Inr (s @ bs)" using Cons.hyps(1) by simp
  have "forEach f (s @ bs) xs = Inr ((s @ bs) @ concat bss)"
    by (rule Cons.IH) (rule Cons.prems, simp)
  then show ?case using 1 by simp
qed

lemma forEach_index:
  assumes "\<And>s i. i < length xs \<Longrightarrow> F s i = G s (xs ! i)"
  shows "forEach F s [0..<length xs] = forEach G s xs"
proof -
  have "forEach F s [0..<length xs] = forEach (\<lambda>s i. G s (xs ! i)) s [0..<length xs]"
    by (rule forEach_cong_set) (simp add: assms)
  also have "\<dots> = forEach G s (map ((!) xs) [0..<length xs])"
    by (rule forEach_map)
  finally show ?thesis by (simp add: map_nth)
qed

text \<open>
  Claim C2, as the code has it. An array (a slice value) and a map are written as the
  varint of the number of elements, and, when there is at least one element, the
  elements in order (for a map each value after its string key) and a varint zero. For
  the empty array and the empty map the output is the varint zero of the count alone:
  \<^verbatim>\<open>if n == 0 { return }\<close> leaves before the terminating zero is written. \<open>bss\<close>
  are the bytes the element encoder writes for the elements, \<open>ess\<close> the bytes of the
  entries of the map, each the string key followed by the value.
\<close>

theorem block_encoding:
  assumes "list_all2 (\<lambda>x bs. encode env enc [] True x = Inr bs) xs bss"
    and "list_all2 (\<lambda>(k, x) bs. \<exists>kb vb. stringEncoder env [] k = Inr kb \<and>
            encode env enc [] False x = Inr vb \<and> bs = kb @ vb) kvs ess"
  shows "encode env (ArrayEncoder enc) e a (VSlice t xs) =
           Inr (e @ PutVarint (of_nat (length xs)) @
                (if xs = [] then [] else concat bss @ PutVarint 0)) \<and>
         encode env (MapEncoder enc) e a (VMap t' kvs) =
           Inr (e @ PutVarint (of_nat (length kvs)) @
                (if kvs = [] then [] else concat ess @ PutVarint 0))"
proof
  show "encode env (ArrayEncoder enc) e a (VSlice t xs) =
           Inr (e @ PutVarint (of_nat (length xs)) @
                (if xs = [] then [] else concat bss @ PutVarint 0))"
  proof (cases "xs = []")
    case True
    then show ?thesis by (simp add: writeLong_def)
  next
    case False
    let ?F = "\<lambda>e' i. case Value_Index a (VSlice t xs) i of Inl p \<Rightarrow> Inl p
                | Inr (a', x) \<Rightarrow> encode env enc e' a' x"
    have "forEach ?F (e @ PutVarint (of_nat (length xs))) [0..<length xs] =
          forEach (\<lambda>e' x. encode env enc e' True x) (e @ PutVarint (of_nat (length xs))) xs"
      by (rule forEach_index) simp
    also have "\<dots> = Inr ((e @ PutVarint (of_nat (length xs))) @ concat bss)"
      by (rule forEach_concat [where f = "\<lambda>e' x. encode env enc e' True x", OF assms(1)])
         (rule encode_append)
    finally show ?thesis using False by (simp add: writeLong_def)
  qed
next
  show "encode env (MapEncoder enc) e a (VMap t' kvs) =
           Inr (e @ PutVarint (of_nat (length kvs)) @
                (if kvs = [] then [] else concat ess @ PutVarint 0))"
  proof (cases "kvs = []")
    case True
    then show ?thesis by (simp add: writeLong_def)
  next
    case False
    let ?f = "\<lambda>e' (k, x). case stringEncoder env e' k of Inl p \<Rightarrow> Inl p
                | Inr e'' \<Rightarrow> encode env enc e'' False x"
    have app: "\<And>s kx. ?f s kx = map_sum id ((@) s) (?f [] kx)"
    proof -
      fix s :: encodeState and kx :: "gvalue \<times> gvalue"
      obtain k x where kx: "kx = (k, x)" by (cases kx)
      define kb where "kb = PutVarint (of_nat (length (Value_String env k))) @ map of_char (Value_String env k)"
      have s1: "stringEncoder env s k = Inr (s @ kb)" and s2: "stringEncoder env [] k = Inr kb"
        by (simp_all add: stringEncoder_def Let_def writeLong_def kb_def)
      show "?f s kx = map_sum id ((@) s) (?f [] kx)"
        using encode_append [of env enc "s @ kb" False x] encode_append [of env enc kb False x] kx s1 s2
        by (cases "encode env enc [] False x") simp_all
    qed
    have each: "list_all2 (\<lambda>kx bs. ?f [] kx = Inr bs) kvs ess"
    proof (rule list_all2_mono [OF assms(2)])
      fix kx :: "gvalue \<times> gvalue" and bs :: "byte list"
      assume h: "(case kx of (k, x) \<Rightarrow> \<lambda>bs. \<exists>kb vb. stringEncoder env [] k = Inr kb \<and>
            encode env enc [] False x = Inr vb \<and> bs = kb @ vb) bs"
      obtain k x where kx: "kx = (k, x)" by (cases kx)
      obtain kb vb where "stringEncoder env [] k = Inr kb"
        and "encode env enc [] False x = Inr vb" and "bs = kb @ vb"
        using h kx by auto
      then show "?f [] kx = Inr bs"
        using kx encode_append [of env enc kb False x] by simp
    qed
    have "forEach ?f (e @ PutVarint (of_nat (length kvs))) kvs =
          Inr ((e @ PutVarint (of_nat (length kvs))) @ concat ess)"
      by (rule forEach_concat [where f = ?f, OF each]) (rule app)
    then show ?thesis using False by (simp add: writeLong_def)
  qed
qed

theorem block_encoding_witness:
  "encode testenv (ArrayEncoder LongEncoder) [] False
     (VSlice (SliceT [] int64T) [VInt int64T 1, VInt int64T 2]) = Inr [4, 2, 4, 0] \<and>
   encode testenv (MapEncoder LongEncoder) [] False
     (VMap (MapT [] stringT int64T) [(VString stringT ''a'', VInt int64T 3)]) = Inr [2, 2, 97, 6, 0]"
  using block_encoding [where env = testenv and enc = LongEncoder
      and xs = "[VInt int64T 1, VInt int64T 2]" and bss = "[[2], [4]]"
      and kvs = "[(VString stringT ''a'', VInt int64T 3)]" and ess = "[[2, 97, 6]]"
      and e = "[]" and a = False and t = "SliceT [] int64T" and t' = "MapT [] stringT int64T"]
  by (simp add: longEncoder_def stringEncoder_def writeLong_def PutVarint_def PutUvarint.simps)

text \<open>Claim C2 as stated fails on the empty array: the output is the single byte of the
  count, not the count followed by a terminating zero.\<close>

theorem empty_array_counterexample:
  "encode testenv (ArrayEncoder LongEncoder) [] False (VSlice (SliceT [] int64T) []) = Inr [0] \<and>
   encode testenv (ArrayEncoder LongEncoder) [] False (VSlice (SliceT [] int64T) [])
     \<noteq> Inr (PutVarint 0 @ concat [] @ PutVarint 0)"
  by (simp add: writeLong_def PutVarint_def PutUvarint.simps)

text \<open>
  Claim C10. For a union of two alternatives held in a Go pointer, the encoder takes as
  the null alternative the one whose entry of the type info has no Go type
  (\<^verbatim>\<open>ftype == nil\<close>), at index \<open>n\<close> = 0 or 1 (index 0 when both entries have none).
  A nil pointer is written as the varint of \<open>n\<close> and nothing else; a pointer to \<open>x\<close>
  as the varint of the other index followed by what the encoder of the other
  alternative writes for \<open>x\<close>.
\<close>

theorem ptr_union_null_index:
  assumes "Kind t = KPtr"
    and "entries info = e0 # e1 # es"
    and "n < 2"
    and "ftype ([e0, e1] ! n) = None"
    and "n = 1 \<longrightarrow> ftype e0 \<noteq> None"
    and "typeEncoder env ([a0, a1] ! (1 - n)) (ftype ([e0, e1] ! (1 - n))) ([e0, e1] ! (1 - n)) = Inr encodeElem"
  shows "\<exists>enc. typeEncoder env (UnionField [a0, a1]) (Some t) info = Inr enc \<and>
           encode env enc e a (VNil t) = Inr (e @ PutVarint (of_nat n)) \<and>
           encode env enc e a (VPtr t x) =
             map_sum id (\<lambda>bs. e @ PutVarint (of_nat (1 - n)) @ bs) (encode env encodeElem [] True x)"
proof (cases "n = 0")
  case True
  have te: "typeEncoder env (UnionField [a0, a1]) (Some t) info = Inr (PtrUnionEncoder 0 1 encodeElem)"
    using assms True by simp
  have "encode env encodeElem (e @ PutVarint 1) True x =
        map_sum id ((@) (e @ PutVarint 1)) (encode env encodeElem [] True x)"
    by (rule encode_append)
  then have "encode env (PtrUnionEncoder 0 1 encodeElem) e a (VPtr t x) =
        map_sum id (\<lambda>bs. e @ PutVarint 1 @ bs) (encode env encodeElem [] True x)"
    by (cases "encode env encodeElem [] True x") (simp_all add: writeLong_def)
  then show ?thesis using te True assms(1) by (simp add: writeLong_def)
next
  case False
  then have n1: "n = 1" using assms(3) by simp
  have te: "typeEncoder env (UnionField [a0, a1]) (Some t) info = Inr (PtrUnionEncoder 1 0 encodeElem)"
    using assms n1 by (cases "ftype e0") simp_all
  have "encode env encodeElem (e @ PutVarint 0) True x =
        map_sum id ((@) (e @ PutVarint 0)) (encode env encodeElem [] True x)"
    by (rule encode_append)
  then have "encode env (PtrUnionEncoder 1 0 encodeElem) e a (VPtr t x) =
        map_sum id (\<lambda>bs. e @ PutVarint 0 @ bs) (encode env encodeElem [] True x)"
    by (cases "encode env encodeElem [] True x") (simp_all add: writeLong_def)
  then show ?thesis using te n1 assms(1) by (simp add: writeLong_def)
qed

theorem ptr_union_null_index_witness:
  "typeEncoder testenv (UnionField [LongField, NullField]) (Some (PtrT [] int64T))
     (azTypeInfo (Some (PtrT [] int64T)) [azTypeInfo (Some int64T) [], azTypeInfo None []])
     = Inr (PtrUnionEncoder 1 0 LongEncoder) \<and>
   encode testenv (PtrUnionEncoder 1 0 LongEncoder) [] False (VNil (PtrT [] int64T)) = Inr [2] \<and>
   encode testenv (PtrUnionEncoder 1 0 LongEncoder) [] False (VPtr (PtrT [] int64T) (VInt int64T 5))
     = Inr [0, 10]"
  using ptr_union_null_index [where t = "PtrT [] int64T" and n = 1 and env = testenv
      and info = "azTypeInfo (Some (PtrT [] int64T)) [azTypeInfo (Some int64T) [], azTypeInfo None []]"
      and ?e0.0 = "azTypeInfo (Some int64T) []" and ?e1.0 = "azTypeInfo None []" and es = "[]"
      and ?a0.0 = LongField and ?a1.0 = NullField and encodeElem = LongEncoder
      and e = "[]" and a = False and x = "VInt int64T 5"]
  by (simp add: longEncoder_def writeLong_def PutVarint_def PutUvarint.simps)

lemma encodeChoices_no_match:
  assumes "\<forall>c \<in> set choices. choice_typ c \<noteq> Some (Value_Type v)"
  shows "encodeChoices env choices e a v i =
         Inl (encodeError (Errorf ''unknown type for union %s'' [AType (Value_Type v)]))"
  using assms
proof (induction choices arbitrary: i)
  case Nil
  then show ?case by simp
next
  case (Cons c choices)
  then show ?case by (cases c) simp
qed

text \<open>
  Claim C6. A union held in a Go interface is encoded by \<^verbatim>\<open>unionEncoder.encode\<close>.
  When the type of the value in the interface is the type of no choice, the call aborts
  with the error "unknown type for union"; when the interface is nil and the union has no
  null alternative (\<^verbatim>\<open>nullIndex\<close> is -1), it aborts with "nil value not allowed".
  \<^verbatim>\<open>Marshal\<close>, here on a struct with the union as its field, returns that error and
  no bytes.
\<close>

theorem union_no_match_is_encode_error:
  assumes "\<forall>c \<in> set choices. choice_typ c \<noteq> Some (Value_Type x)"
    and "Kind t = KInterface"
  shows "encode env (UnionEncoder nullIndex choices) e a (VIface t x) =
           Inl (encodeError (Errorf ''unknown type for union %s'' [AType (Value_Type x)])) \<and>
         encode env (UnionEncoder (- 1) choices) e a (VNil t) =
           Inl (encodeError (Errorf ''nil value not allowed'' [])) \<and>
         recoverEncode env (StructEncoder [UnionEncoder nullIndex choices]) (VStruct st [VIface t x]) at =
           Returns None None (Some (Errorf ''unknown type for union %s'' [AType (Value_Type x)])) \<and>
         recoverEncode env (StructEncoder [UnionEncoder (- 1) choices]) (VStruct st [VNil t]) at =
           Returns None None (Some (Errorf ''nil value not allowed'' []))"
  using assms by (simp add: recoverEncode_def encodeChoices_no_match)

theorem union_no_match_is_encode_error_witness:
  "encode testenv (UnionEncoder 0 [unionEncoderChoice None None, unionEncoderChoice (Some int64T) (Some LongEncoder)])
      [] False (VIface ifaceT (VString stringT ''s'')) =
     Inl (encodeError (Errorf ''unknown type for union %s'' [AType stringT])) \<and>
   recoverEncode testenv (StructEncoder [UnionEncoder (- 1) [unionEncoderChoice (Some int64T) (Some LongEncoder)]])
      (VStruct recT [VNil ifaceT]) (avro_Type recSchema) =
     Returns None None (Some (Errorf ''nil value not allowed'' []))"
  using union_no_match_is_encode_error [where choices = "[unionEncoderChoice None None, unionEncoderChoice (Some int64T) (Some LongEncoder)]"
      and x = "VString stringT ''s''" and t = ifaceT and env = testenv and nullIndex = 0 and e = "[]" and a = False]
    union_no_match_is_encode_error [where choices = "[unionEncoderChoice (Some int64T) (Some LongEncoder)]"
      and x = "VString stringT ''s''" and t = ifaceT and env = testenv and st = recT and at = "avro_Type recSchema"]
  by (simp add: ifaceT_def int64T_def stringT_def)

section \<open>Properties of Marshal\<close>

lemma genenv_avroTypeOf:
  "avroTypeOf genenv Map.empty recT None = (Ok (avro_Type recSchema), [recT \<mapsto> avro_Type recSchema])"
  by (simp add: avroTypeOf_def schemaForGoTypeUncached_def schemaForGoType.simps genenv_def
      testenv_def goTypeSchema_define_def name_of_def_def defs_has_name_def LoadOrStore_def Let_def)

lemma genenv_typeEncoder:
  "typeEncoder genenv recSchema (Some recT)
     (azTypeInfo (Some recT) [azTypeInfo (Some ifaceT) [azTypeInfo None [], azTypeInfo (Some int64T) []]]) =
   Inr (StructEncoder [UnionEncoder 0 [unionEncoderChoice None None,
                                       unionEncoderChoice (Some int64T) (Some LongEncoder)]])"
  by (simp add: recSchema_def recT_def ifaceT_def)

text \<open>
  Claim C8, as the code has it. The abort of the encoders, a panic with an
  \<^verbatim>\<open>*encodeError\<close>, never leaves \<^verbatim>\<open>Marshal\<close>: whenever the encoder built for the
  value aborts with the error \<open>err\<close>, \<^verbatim>\<open>Marshal\<close> returns nil bytes, a nil type and
  \<open>err\<close>; and for no value and no writer type does a call of \<^verbatim>\<open>Marshal\<close> panic
  with an \<^verbatim>\<open>*encodeError\<close>. A panic of another kind is not translated: the deferred
  function raises it again.
\<close>

theorem Marshal_recovers_encodeError:
  assumes "avroTypeOf env cache (Value_Type xv) None = (Ok at, cache')"
    and "newAzTypeInfo env (Some (Value_Type xv)) = Inr info"
    and "typeEncoder env (avroType_of at) (Some (Value_Type xv)) info = Inr enc"
    and "encode env enc [] False xv = Inl (encodeError err)"
  shows "Marshal env cache (Some xv) None = (Returns None None (Some err), cache') \<and>
         (\<forall>x wType err'. fst (Marshal env cache x wType) \<noteq> Panics (encodeError err'))"
proof
  show "Marshal env cache (Some xv) None = (Returns None None (Some err), cache')"
    using assms by (simp add: Marshal_def recoverEncode_def)
next
  show "\<forall>x wType err'. fst (Marshal env cache x wType) \<noteq> Panics (encodeError err')"
    by (auto simp: Marshal_def recoverEncode_def
        split: option.splits prod.splits result.splits sum.splits panicv.splits)
qed

theorem Marshal_recovers_encodeError_witness:
  "Marshal genenv Map.empty (Some (VStruct recT [VIface ifaceT (VString stringT ''s'')])) None =
     (Returns None None (Some (Errorf ''unknown type for union %s'' [AType stringT])),
      [recT \<mapsto> avro_Type recSchema])"
  using Marshal_recovers_encodeError [where env = genenv and cache = Map.empty
      and xv = "VStruct recT [VIface ifaceT (VString stringT ''s'')]"
      and at = "avro_Type recSchema" and cache' = "[recT \<mapsto> avro_Type recSchema]"
      and info = "azTypeInfo (Some recT) [azTypeInfo (Some ifaceT) [azTypeInfo None [], azTypeInfo (Some int64T) []]]"
      and enc = "StructEncoder [UnionEncoder 0 [unionEncoderChoice None None,
                                       unionEncoderChoice (Some int64T) (Some LongEncoder)]]"
      and err = "Errorf ''unknown type for union %s'' [AType stringT]"]
    genenv_avroTypeOf genenv_typeEncoder
  by (simp add: genenv_def ifaceT_def int64T_def stringT_def)

section \<open>Properties of the derivation of a schema\<close>

text \<open>
  Claim C3 says that a field takes the name of its "json" tag when it has one and that a
  field tagged "-" is left out of the record schema. The code does neither for a tag
  without a comma: \<^verbatim>\<open>jsonFieldName\<close> reads \<^verbatim>\<open>parts[1]\<close> where \<^verbatim>\<open>parts\<close>
  has one element, and the derivation panics (for the tag "a" as for the tag "-"). Where
  \<^verbatim>\<open>jsonFieldName\<close> does return the empty name, for the tag "a,-", the field is
  still appended to the fields of the record, with the empty name.
\<close>

theorem jsonFieldName_tag_panics:
  "jsonFieldName (StructField ''A'' [] ''a'' False int64T) = Inl indexPanic \<and>
   jsonFieldName (StructField ''A'' [] ''-'' False int64T) = Inl indexPanic \<and>
   fst (schemaForGoType testenv [] (StructT ''T'' [StructField ''A'' [] ''a'' False int64T]))
     = Panic indexPanic \<and>
   fst (schemaForGoType testenv [] (StructT ''T'' [StructField ''A'' [] ''-'' False int64T]))
     = Panic indexPanic \<and>
   jsonFieldName (StructField ''A'' [] ''a,-'' False int64T) = Inr ([], False) \<and>
   fst (schemaForGoType testenv [] (StructT ''T'' [StructField ''A'' [] ''a,-'' False int64T]))
     = Ok (JObject [(''name'', JString ''T''), (''type'', JString ''record''),
          (''fields'', JArray [JObject [(''name'', JString []),
             (''default'', JGo (VInt int64T 0)), (''type'', JString ''long'')]])])"
  by (simp add: jsonFieldName_def schemaForGoType.simps testenv_def enumSymbols_def
      isSignedInt_def isUnsignedInt_def int64T_def defs_has_name_def Let_def
      goTypeSchema_define_def name_of_def_def defaultForType_def)

text \<open>The probe of \<^verbatim>\<open>enumSymbols\<close> never succeeds: \<^verbatim>\<open>setInt\<close> is called on the
  \<^verbatim>\<open>Value\<close> of the pointer \<^verbatim>\<open>reflect.New(t)\<close>, which is not addressable, so it
  panics and \<^verbatim>\<open>symOf\<close> returns \<^verbatim>\<open>ok = false\<close>. The check at -1 lets the loop
  start, the loop ends at 0 with no symbol, and no type is taken for an enum.\<close>

lemma symOf_reflect_New: "symOf str uns (reflect_New t) i = ([], 0, False)"
  by (simp add: symOf_def reflect_New_def)

lemma enumSymbols_nil: "enumSymbols env t = []"
  by (simp add: enumSymbols_def symOf_reflect_New enumLoop.simps [of _ _ _ 0] maxEnum_def
      split: option.splits)

text \<open>
  Claim C4. For an integer type with a \<^verbatim>\<open>String\<close> method that returns, for the value
  -1, a string without the bracket "(", \<^verbatim>\<open>enumSymbols\<close> returns no symbols and
  \<^verbatim>\<open>schemaForGoType\<close> goes on to the \<^verbatim>\<open>switch\<close> on the kind: "long" for
  \<^verbatim>\<open>int\<close>, \<^verbatim>\<open>int64\<close> and \<^verbatim>\<open>uint32\<close>, "int" for the narrower kinds, and the
  error of the default case for \<^verbatim>\<open>uint\<close> and \<^verbatim>\<open>uint64\<close> (for a type that has no
  definition yet and no \<^verbatim>\<open>AvroRecord\<close> method, the two cases the function tries
  first). The code gets there through the loop, which ends without a symbol, not through
  the check of the symbol at -1 (see \<open>enumSymbols_nil\<close>).
\<close>

theorem in_range_minus_one_is_no_enum:
  assumes "isSignedInt k \<or> isUnsignedInt k"
    and "Stringer env (BasicT n k) = Some str"
    and "str (- 1) = Some s"
    and "CHR ''('' \<notin> set s"
    and "map_of defs (BasicT n k) = None"
    and "AvroRecord_Schema env (BasicT n k) = None"
  shows "enumSymbols env (BasicT n k) = [] \<and>
         schemaForGoType env defs (BasicT n k) =
           (if k \<in> {KInt, KInt64, KUint32} then (Ok (JString ''long''), defs)
            else if k \<in> {KInt32, KInt16, KUint16, KInt8, KUint8} then (Ok (JString ''int''), defs)
            else (Err (Errorf ''cannot make Avro schema for Go type %s'' [AType (BasicT n k)]), defs))"
proof -
  have e: "enumSymbols env (BasicT n k) = []"
    by (rule enumSymbols_nil)
  have k: "k \<noteq> KString" "k \<noteq> KFloat32" "k \<noteq> KFloat64" "k \<noteq> KInterface"
    using assms(1) by (auto simp: isSignedInt_def isUnsignedInt_def)
  show ?thesis
    using e k assms(5,6) by (simp add: schemaForGoType.simps [of env defs "BasicT n k"])
qed

theorem in_range_minus_one_is_no_enum_witness:
  "enumSymbols enumenv plainT = [] \<and>
   schemaForGoType enumenv [] plainT = (Ok (JString ''int''), [])"
  using in_range_minus_one_is_no_enum [where env = enumenv and n = "''P''" and k = KInt32
      and str = plainvs and s = "''minus''" and defs = "[]"]
  by (simp add: enumenv_def testenv_def plainT_def enumT_def plainvs_def isSignedInt_def)

text \<open>
  Claim C5 says that a symbol repeated at the index \<open>i\<close> ends the collection with the
  symbols of the indices 0 to \<open>i - 1\<close>. The \<^verbatim>\<open>String\<close> method of the type \<^verbatim>\<open>E\<close>
  returns "A" for 0 and "B" for 1 and for 2, so the claim gives the symbols "A", "B".
  The code returns no symbol at all, and the schema of \<^verbatim>\<open>E\<close> is "long": every call
  of \<^verbatim>\<open>symOf\<close> ends in the panic of \<^verbatim>\<open>setInt\<close>, and the loop returns at the index 0
  before it compares a symbol with the previous one.
\<close>

theorem enum_probe_finds_no_symbols:
  "enumvs 0 = Some ''A'' \<and> enumvs 1 = Some ''B'' \<and> enumvs 2 = enumvs 1 \<and>
   symOf enumvs False (reflect_New enumT) 0 = ([], 0, False) \<and>
   enumSymbols enumenv enumT = [] \<and>
   enumSymbols enumenv enumT \<noteq> [''A'', ''B''] \<and>
   schemaForGoType enumenv [] enumT = (Ok (JString ''long''), [])"
  by (simp add: enumvs_def enumSymbols_nil symOf_reflect_New schemaForGoType.simps
      enumenv_def testenv_def enumT_def plainT_def)

section \<open>Panics that leave Marshal\<close>

text \<open>
  Claim C8 as stated fails: not every call of \<^verbatim>\<open>Marshal\<close> returns. On the nil
  interface \<^verbatim>\<open>reflect.ValueOf(x).Type()\<close> panics before the \<^verbatim>\<open>recover\<close> is
  deferred; and a panic raised during the encoding that is no \<^verbatim>\<open>*encodeError\<close> is
  raised again by \<^verbatim>\<open>panic(r)\<close>, as the panic of \<^verbatim>\<open>v.Int()\<close> in
  \<^verbatim>\<open>longEncoder\<close> on a value of type \<^verbatim>\<open>uint32\<close>, whose schema is "long".
\<close>

theorem Marshal_panics_counterexample:
  "fst (Marshal testenv Map.empty None None) =
     Panics (runtimePanic ''reflect: call of reflect.Value.Type on zero Value'') \<and>
   fst (Marshal longenv Map.empty (Some (VUint uint32T 5)) None) =
     Panics (runtimePanic ''reflect: call of reflect.Value.Int on non-int Value'')"
  by (simp add: Marshal_def avroTypeOf_def schemaForGoTypeUncached_def schemaForGoType.simps
      enumSymbols_nil longenv_def testenv_def uint32T_def LoadOrStore_def recoverEncode_def
      longEncoder_def)

section \<open>Properties of the cache of derived types\<close>

lemma LoadOrStore_keeps: "cache k = Some v \<Longrightarrow> LoadOrStore cache k' v' k = Some v"
  by (auto simp: LoadOrStore_def split: option.splits)

lemma avroTypeOf_keeps:
  "cache k = Some v \<Longrightarrow> snd (avroTypeOf env cache t wType) k = Some v"
  by (auto simp: avroTypeOf_def LoadOrStore_keeps split: option.splits avroType.splits result.splits)

lemma avroTypeOf_calls_keeps:
  "cache k = Some v \<Longrightarrow> avroTypeOf_calls env cache calls k = Some v"
proof (induction calls arbitrary: cache)
  case Nil
  then show ?case by simp
next
  case (Cons c calls)
  obtain t w where c: "c = (t, w)" by (cases c)
  show ?case
    using Cons.IH [of "snd (avroTypeOf env cache t w)"]
      avroTypeOf_keeps [where cache = cache and k = k and v = v and env = env and t = t and wType = w]
      Cons.prems c by simp
qed

lemma uncached_Ok_parsed:
  "schemaForGoTypeUncached env t wType = Ok rType \<Longrightarrow> \<exists>s. ParseType env s = Inr rType"
  by (auto simp: schemaForGoTypeUncached_def split: result.splits sum.splits)

lemma avroTypeOf_hit:
  assumes "cache t = Some entry"
  shows "avroTypeOf env cache t None =
           ((case avroType_of entry of errorSchema err \<Rightarrow> Err err | _ \<Rightarrow> Ok entry), cache)"
  using assms by (simp add: avroTypeOf_def split: avroType.splits)

lemma avroTypeOf_stores:
  assumes "\<forall>s T. ParseType env s = Inr T \<longrightarrow> (\<forall>e. avroType_of T \<noteq> errorSchema e)"
    and "avroTypeOf env cache t None = (r, cache1)"
    and "\<forall>p. r \<noteq> Panic p"
  shows "\<exists>entry. cache1 t = Some entry \<and>
           r = (case avroType_of entry of errorSchema err \<Rightarrow> Err err | _ \<Rightarrow> Ok entry)"
proof (cases "cache t")
  case (Some entry)
  then show ?thesis
    using assms(2) avroTypeOf_hit [where cache = cache and t = t and entry = entry and env = env]
    by auto
next
  case None
  show ?thesis
  proof (cases "schemaForGoTypeUncached env t None")
    case (Ok rType)
    then obtain s where "ParseType env s = Inr rType" using uncached_Ok_parsed by blast
    then have ne: "\<forall>e. avroType_of rType \<noteq> errorSchema e" using assms(1) by blast
    have "r = Ok rType" "cache1 = LoadOrStore cache t rType"
      using assms(2) None Ok by (simp_all add: avroTypeOf_def)
    then show ?thesis using None ne
      by (cases "avroType_of rType") (auto simp: LoadOrStore_def)
  next
    case (Err err)
    have "r = Err err" "cache1 = LoadOrStore cache t (avro_Type (errorSchema err))"
      using assms(2) None Err by (simp_all add: avroTypeOf_def)
    then show ?thesis using None by (simp add: LoadOrStore_def)
  next
    case (Panic p)
    then have "r = Panic p" using assms(2) None by (simp add: avroTypeOf_def)
    then show ?thesis using assms(3) by blast
  qed
qed

lemma avroTypeOf_panic_leaves_cache:
  assumes "avroTypeOf env cache t None = (Panic p, cache1)"
  shows "cache t = None \<and> cache1 = cache \<and> schemaForGoTypeUncached env t None = Panic p"
  using assms
  by (auto simp: avroTypeOf_def split: option.splits result.splits avroType.splits)

lemma avroTypeOf_panic_again:
  assumes "schemaForGoTypeUncached env t None = Panic p" and "cache t = None"
  shows "snd (avroTypeOf env cache t' w) t = None"
proof (cases "t' = t")
  case True
  then show ?thesis using assms by (simp add: avroTypeOf_def)
next
  case False
  then show ?thesis using assms(2)
    by (auto simp: avroTypeOf_def LoadOrStore_def split: option.splits avroType.splits result.splits)
qed

lemma avroTypeOf_calls_panic_again:
  assumes "schemaForGoTypeUncached env t None = Panic p" and "cache t = None"
  shows "avroTypeOf_calls env cache calls t = None"
  using assms(2)
proof (induction calls arbitrary: cache)
  case Nil
  then show ?case by simp
next
  case (Cons c calls)
  obtain t' w where c: "c = (t', w)" by (cases c)
  have "snd (avroTypeOf env cache t' w) t = None"
    using avroTypeOf_panic_again [where cache = cache and t = t, OF assms(1) Cons.prems] by simp
  then show ?case using Cons.IH [of "snd (avroTypeOf env cache t' w)"] c by simp
qed

text \<open>
  Claim C7. Let a call of \<^verbatim>\<open>avroTypeOf\<close> for the type \<open>t\<close> return \<open>r\<close> and leave
  the cache \<open>cache1\<close>. After any sequence of later calls, a call for \<open>t\<close> returns
  \<open>r\<close> again. When \<open>r\<close> is a type or an error of the derivation (the writer type is
  nil and the call did not panic), the later call does not derive: it returns \<open>r\<close> and
  leaves the cache as it is in every environment \<open>env'\<close>, whatever the derivation
  would return there. The hypothesis on \<^verbatim>\<open>ParseType\<close>, whose source is not at hand,
  is that it never returns the package's own \<^verbatim>\<open>errorSchema\<close>, which only
  \<^verbatim>\<open>avroTypeOf\<close> builds.
\<close>

theorem avroTypeOf_memoized:
  assumes "\<forall>s T. ParseType env s = Inr T \<longrightarrow> (\<forall>e. avroType_of T \<noteq> errorSchema e)"
    and "avroTypeOf env cache t wType = (r, cache1)"
  shows "fst (avroTypeOf env (avroTypeOf_calls env cache1 calls) t wType) = r \<and>
         (wType = None \<and> (\<forall>p. r \<noteq> Panic p) \<longrightarrow>
            avroTypeOf env' (avroTypeOf_calls env cache1 calls) t wType =
              (r, avroTypeOf_calls env cache1 calls))"
proof -
  let ?cache2 = "avroTypeOf_calls env cache1 calls"
  have hit: "\<forall>env'. avroTypeOf env' ?cache2 t wType = (r, ?cache2)"
    if w: "wType = None" and np: "\<forall>p. r \<noteq> Panic p"
  proof -
    obtain entry where e1: "cache1 t = Some entry"
      and r: "r = (case avroType_of entry of errorSchema err \<Rightarrow> Err err | _ \<Rightarrow> Ok entry)"
      using avroTypeOf_stores [OF assms(1) assms(2) [unfolded w] np] by blast
    have e2: "?cache2 t = Some entry"
      using avroTypeOf_calls_keeps [where cache = cache1 and k = t and v = entry] e1 by simp
    show ?thesis
      using avroTypeOf_hit [where cache = ?cache2 and t = t and entry = entry] e2 r w by simp
  qed
  have "fst (avroTypeOf env ?cache2 t wType) = r"
  proof (cases "wType = None")
    case False
    then show ?thesis using assms(2) by (auto simp: avroTypeOf_def)
  next
    case True
    show ?thesis
    proof (cases "\<forall>p. r \<noteq> Panic p")
      case True
      then show ?thesis using hit \<open>wType = None\<close> by simp
    next
      case False
      then obtain p where p: "r = Panic p" by blast
      have l: "cache t = None \<and> cache1 = cache \<and> schemaForGoTypeUncached env t None = Panic p"
        using avroTypeOf_panic_leaves_cache [where cache = cache and t = t] assms(2) p \<open>wType = None\<close>
        by simp
      then have "?cache2 t = None"
        using avroTypeOf_calls_panic_again [where cache = cache1 and t = t and env = env and p = p]
        by simp
      then show ?thesis using l p \<open>wType = None\<close> by (simp add: avroTypeOf_def)
    qed
  qed
  then show ?thesis using hit by blast
qed

lemma testenv_avroTypeOf:
  "avroTypeOf testenv Map.empty int64T None =
     (Err (Errorf ''cannot marshal generated schema: %v'' [AErr (LibError ''no encoding'')]),
      [int64T \<mapsto> avro_Type (errorSchema (Errorf ''cannot marshal generated schema: %v'' [AErr (LibError ''no encoding'')]))])"
  by (simp add: avroTypeOf_def schemaForGoTypeUncached_def schemaForGoType.simps testenv_def
      int64T_def enumSymbols_def isSignedInt_def isUnsignedInt_def LoadOrStore_def Let_def)

theorem avroTypeOf_memoized_witness:
  "avroTypeOf genenv (avroTypeOf_calls testenv
      [int64T \<mapsto> avro_Type (errorSchema (Errorf ''cannot marshal generated schema: %v'' [AErr (LibError ''no encoding'')]))]
      [(stringT, None), (int64T, None)]) int64T None =
     (Err (Errorf ''cannot marshal generated schema: %v'' [AErr (LibError ''no encoding'')]),
      avroTypeOf_calls testenv
      [int64T \<mapsto> avro_Type (errorSchema (Errorf ''cannot marshal generated schema: %v'' [AErr (LibError ''no encoding'')]))]
      [(stringT, None), (int64T, None)])"
  using avroTypeOf_memoized [where env = testenv and cache = Map.empty and t = int64T
      and wType = None and calls = "[(stringT, None), (int64T, None)]" and env' = genenv
      and r = "Err (Errorf ''cannot marshal generated schema: %v'' [AErr (LibError ''no encoding'')])"
      and ?cache1.0 = "[int64T \<mapsto> avro_Type (errorSchema (Errorf ''cannot marshal generated schema: %v'' [AErr (LibError ''no encoding'')]))]"]
    testenv_avroTypeOf
  by (simp add: testenv_def)

section \<open>The example of the codec test\<close>

text \<open>
  Claim C1, on the decoder modelled from the specification. The reader schema is that of
  \<^verbatim>\<open>TestRecord\<close>: A with the default 42, then B. The message with schema id 1
  (writer fields B, A) and the payload 40, 80 decodes to A = 40, B = 20; the message
  with id 2 (writer field B only) and the payload 80 decodes to A = 42, B = 40; the
  message with id 3 (writer field A only) fails with the incompatibility error that
  names the field B.
\<close>

theorem codec_test_example:
  "codec_Unmarshal testRegistry TestRecord_Schema [1, 40, 80] =
     Inr (NRecord [(''A'', NInt 40), (''B'', NInt 20)]) \<and>
   codec_Unmarshal testRegistry TestRecord_Schema [2, 80] =
     Inr (NRecord [(''A'', NInt 42), (''B'', NInt 40)]) \<and>
   codec_Unmarshal testRegistry TestRecord_Schema [3, 80] = Inl (IncompatibleSchemas ''B'')"
  by (simp add: codec_Unmarshal_def SchemaID_def SchemaForID_def testRegistry_def
      TestRecord_Schema_def read_long_def unzigzag_def)

end
